theory Spec2Isabelle
  imports Main
begin

section \<open>Source positions, tokens and the scanner interface\<close>

text \<open>
  The parser (HLSLParser.cpp) and the printer (ASTPrinter.cpp) are embedded function by
  function. The scanner, the token classes, the node classes of the tree and the
  visitor's dispatcher are declared in files that are not among the sources; they are
  modelled from the specification and from the use the two files make of them. The
  parser runs over an already scanned token sequence.
\<close>

record SourcePos =
  row :: nat
  column :: nat

fun string_of_nat :: "nat \<Rightarrow> string" where
  "string_of_nat n =
     (if n < 10 then [''0123456789'' ! n]
      else string_of_nat (n div 10) @ [''0123456789'' ! (n mod 10)])"

text \<open>Modelled from the spec: \<open>SourcePos::ToString\<close> is not in the sources; a position
  is "renderable as L:C".\<close>

definition ToString :: "SourcePos \<Rightarrow> string" where
  "ToString p = string_of_nat (row p) @ '':'' @ string_of_nat (column p)"

text \<open>Modelled from the spec: the token kinds of \<open>Tokens\<close> (declared with the scanner),
  as the spec enumerates them. \<open>If\<close> and \<open>PackOffset\<close> carry a suffix, the first
  because HOL has a constant of that name, the second because the AST class of that name
  keeps it.\<close>

datatype Tokens =
    Ident | BoolLiteral | IntLiteral | FloatLiteral
  | ScalarType | VectorType | MatrixType | Texture | Sampler | UniformBuffer
  | Void | Struct | Register | PackOffset_tok
  | If_tok | Else | Switch | Case | Default | For | While | Do | Return | CtrlTransfer
  | InputModifier | StorageModifier | TypeModifier
  | AssignOp | UnaryOp | BinaryOp | TernaryOp
  | LBracket | RBracket | LCurly | RCurly | LParen | RParen
  | Comma | Semicolon | Colon | Dot | Directive | EndOfStream

text \<open>Modelled from the spec: a token has a kind, a spelling and a position.\<close>

record Token =
  Type :: Tokens
  Spell :: string
  Pos :: SourcePos

text \<open>
  Modelled from the spec: the scanner as the parser sees it, that is the tokens not yet
  delivered and the position \<open>scanner_.Pos()\<close> reports. \<open>Next\<close> delivers the next token and
  moves the position to the one attached to it; at the end of the input it delivers
  \<open>EndOfStream\<close>, again and again.
\<close>

record HLSLScanner =
  pending :: "Token list"
  scanPos :: SourcePos

definition Next :: "HLSLScanner \<Rightarrow> Token \<times> HLSLScanner" where
  "Next sc =
     (case pending sc of
        [] \<Rightarrow> (\<lparr>Type = EndOfStream, Spell = [], Pos = scanPos sc\<rparr>, sc)
      | t # ts \<Rightarrow> (t, \<lparr>pending = ts, scanPos = Pos t\<rparr>))"

section \<open>The parser state and its exceptions\<close>

text \<open>
  \<open>heap\<close> is the next free address: every \<open>Make<T>()\<close> allocates a node, and the
  raw pointers \<open>declStmntRef\<close> and \<open>symbolRef\<close> hold such addresses.
\<close>

record HLSLParser =
  scanner :: HLSLScanner
  tkn :: Token
  heap :: nat

text \<open>A \<open>std::runtime_error\<close> with its message, or the fuel of the model running out
  (the model's stand-in for a parse that does not return).\<close>

datatype error = runtime_error string | OutOfFuel

type_synonym 'a P = "HLSLParser \<Rightarrow> error + ('a \<times> HLSLParser)"

definition ret :: "'a \<Rightarrow> 'a P" where
  "ret x = (\<lambda>s. Inr (x, s))"

definition bind :: "'a P \<Rightarrow> ('a \<Rightarrow> 'b P) \<Rightarrow> 'b P" where
  "bind m f = (\<lambda>s. case m s of Inl e \<Rightarrow> Inl e | Inr (x, s') \<Rightarrow> f x s')"

definition Error :: "string \<Rightarrow> 'a P" where
  "Error msg = (\<lambda>s. Inl (runtime_error
     (''syntax error ('' @ ToString (scanPos (scanner s)) @ '') : '' @ msg)))"

definition ErrorUnexpected :: "'a P" where
  "ErrorUnexpected = (\<lambda>s. Error (''unexpected token '' @ [CHR 0x27] @ Spell (tkn s) @ [CHR 0x27]) s)"

definition ErrorUnexpectedHint :: "string \<Rightarrow> 'a P" where
  "ErrorUnexpectedHint hint =
     (\<lambda>s. Error (''unexpected token '' @ [CHR 0x27] @ Spell (tkn s) @ [CHR 0x27] @ '' ('' @ hint @ '')'') s)"

definition AcceptIt :: "Token P" where
  "AcceptIt = (\<lambda>s. case Next (scanner s) of
                      (t, sc) \<Rightarrow> Inr (tkn s, s\<lparr>scanner := sc, tkn := t\<rparr>))"

definition Accept :: "Tokens \<Rightarrow> Token P" where
  "Accept ty = (\<lambda>s. if Type (tkn s) \<noteq> ty then ErrorUnexpected s else AcceptIt s)"

definition AcceptSpell :: "Tokens \<Rightarrow> string \<Rightarrow> Token P" where
  "AcceptSpell ty spell =
     (\<lambda>s. if Type (tkn s) \<noteq> ty then ErrorUnexpected s
          else if Spell (tkn s) \<noteq> spell then
            Error (''unexpected token spelling '' @ [CHR 0x27] @ Spell (tkn s) @ [CHR 0x27]
                   @ '' (expected '' @ [CHR 0x27] @ spell @ [CHR 0x27] @ '')'') s
          else AcceptIt s)"

definition Semi :: "unit P" where
  "Semi = bind (Accept Semicolon) (\<lambda>_. ret ())"

definition Is :: "Tokens \<Rightarrow> HLSLParser \<Rightarrow> bool" where
  "Is ty s = (Type (tkn s) = ty)"

definition IsSpell :: "Tokens \<Rightarrow> string \<Rightarrow> HLSLParser \<Rightarrow> bool" where
  "IsSpell ty spell s = (Type (tkn s) = ty \<and> Spell (tkn s) = spell)"

definition IsDataType :: "HLSLParser \<Rightarrow> bool" where
  "IsDataType s = (Is ScalarType s \<or> Is VectorType s \<or> Is MatrixType s \<or> Is Texture s \<or> Is Sampler s)"

definition IsLiteral :: "HLSLParser \<Rightarrow> bool" where
  "IsLiteral s = (Is BoolLiteral s \<or> Is IntLiteral s \<or> Is FloatLiteral s)"

definition IsPrimaryExpr :: "HLSLParser \<Rightarrow> bool" where
  "IsPrimaryExpr s =
     (IsLiteral s \<or> Is Ident s \<or> Is UnaryOp s \<or> IsSpell BinaryOp ''-'' s \<or> Is LBracket s)"

section \<open>The abstract syntax tree\<close>

text \<open>
  Modelled from the spec: the node classes, with the fields the parser assigns and the
  printer reads. Every node starts with the part it inherits from the base class \<open>AST\<close>:
  its position, fixed at creation, and here its address. \<open>Make<T>()\<close> allocates the node
  at the scanner's position. A pointer that the parser may leave unassigned is an
  \<open>option\<close> and null (\<open>None\<close>) until assigned; a string is empty until assigned.
\<close>

record AST =
  addr :: nat
  pos :: SourcePos

definition Make :: "AST P" where
  "Make = (\<lambda>s. Inr (\<lparr>addr = heap s, pos = scanPos (scanner s)\<rparr>, s\<lparr>heap := Suc (heap s)\<rparr>))"

datatype Expr =
    ListExpr AST Expr Expr
  | LiteralExpr AST string
  | TypeNameExpr AST string
  | TernaryExpr AST Expr Expr Expr
  | BinaryExpr AST Expr string Expr
  | UnaryExpr AST string Expr
  | PostUnaryExpr AST Expr string
  | FunctionCallExpr AST FunctionCall
  | BracketExpr AST Expr
  | CastExpr AST Expr Expr
  | VarAccessExpr AST VarIdent string "Expr option"
  | InitializerExpr AST "Expr list"
and VarIdent =
    VarIdent AST string "Expr list" "VarIdent option"
and FunctionCall =
    FunctionCall AST VarIdent "Expr list"

section \<open>Expressions\<close>

text \<open>
  Every function that recurses, directly or through the others, takes the fuel first and
  passes one unit less to each function it calls in its group; the measure of each
  termination proof is that fuel, read off the argument of whichever function is called. A \<open>while\<close> loop is a
  function of its own, named after the function that holds it, with the list it appends
  to as an argument. The default arguments of the parser's header are written out at
  each call: \<open>allowComma = false\<close>, \<open>initExpr = nullptr\<close>, \<open>varIdent = nullptr\<close>,
  \<open>allowLastComma = false\<close>, \<open>parseColon = true\<close>, \<open>parseVoidType = false\<close>.
\<close>

definition ParseLiteralExpr :: "Expr P" where
  "ParseLiteralExpr = (\<lambda>s.
     if \<not> IsLiteral s then ErrorUnexpectedHint ''expected literal expression'' s
     else bind Make (\<lambda>a. bind AcceptIt (\<lambda>t. ret (LiteralExpr a (Spell t)))) s)"

function ParseExpr :: "nat \<Rightarrow> bool \<Rightarrow> Expr option \<Rightarrow> Expr P"
and ParsePrimaryExpr :: "nat \<Rightarrow> Expr P"
and ParseTypeNameOrFunctionCallExpr :: "nat \<Rightarrow> Expr P"
and ParseUnaryExpr :: "nat \<Rightarrow> Expr P"
and ParseBracketOrCastExpr :: "nat \<Rightarrow> Expr P"
and ParseVarAccessOrFunctionCallExpr :: "nat \<Rightarrow> Expr P"
and ParseVarAccessExpr :: "nat \<Rightarrow> VarIdent option \<Rightarrow> Expr P"
and ParseFunctionCallExpr :: "nat \<Rightarrow> VarIdent option \<Rightarrow> Expr P"
and ParseFunctionCall :: "nat \<Rightarrow> VarIdent option \<Rightarrow> FunctionCall P"
and ParseInitializerExpr :: "nat \<Rightarrow> Expr P"
and ParseVarIdent :: "nat \<Rightarrow> VarIdent P"
and ParseArrayDimension :: "nat \<Rightarrow> Expr P"
and ParseArrayDimensionList :: "nat \<Rightarrow> Expr list \<Rightarrow> Expr list P"
and ParseExprList :: "nat \<Rightarrow> Tokens \<Rightarrow> bool \<Rightarrow> Expr list P"
and ParseExprList_loop :: "nat \<Rightarrow> Tokens \<Rightarrow> bool \<Rightarrow> Expr list \<Rightarrow> Expr list P"
and ParseArgumentList :: "nat \<Rightarrow> Expr list P"
and ParseInitializerList :: "nat \<Rightarrow> Expr list P"
where
  "ParseExpr 0 allowComma initExpr = (\<lambda>s. Inl OutOfFuel)"
| "ParseExpr (Suc n) allowComma initExpr =
     bind (case initExpr of Some e \<Rightarrow> ret e | None \<Rightarrow> ParsePrimaryExpr n) (\<lambda>ast0.
     bind (\<lambda>s. if Is UnaryOp s then
                  bind Make (\<lambda>a. bind AcceptIt (\<lambda>t. ret (PostUnaryExpr a ast0 (Spell t)))) s
                else ret ast0 s) (\<lambda>ast s.
       if Is BinaryOp s then
         bind Make (\<lambda>a. bind AcceptIt (\<lambda>t. bind (ParseExpr n allowComma None) (\<lambda>rhs.
           ret (BinaryExpr a ast (Spell t) rhs)))) s
       else if Is TernaryOp s then
         bind Make (\<lambda>a. bind AcceptIt (\<lambda>_. bind (ParseExpr n False None) (\<lambda>ifExpr.
         bind (Accept Colon) (\<lambda>_. bind (ParseExpr n False None) (\<lambda>elseExpr.
           ret (TernaryExpr a ast ifExpr elseExpr)))))) s
       else if allowComma \<and> Is Comma s then
         bind AcceptIt (\<lambda>_. bind Make (\<lambda>a. bind (ParseExpr n True None) (\<lambda>nextExpr.
           ret (ListExpr a ast nextExpr)))) s
       else ret ast s))"
| "ParsePrimaryExpr 0 = (\<lambda>s. Inl OutOfFuel)"
| "ParsePrimaryExpr (Suc n) = (\<lambda>s.
     if IsLiteral s then ParseLiteralExpr s
     else if IsDataType s then ParseTypeNameOrFunctionCallExpr n s
     else if Is UnaryOp s \<or> IsSpell BinaryOp ''-'' s then ParseUnaryExpr n s
     else if Is LBracket s then ParseBracketOrCastExpr n s
     else if Is LCurly s then ParseInitializerExpr n s
     else if Is Ident s then ParseVarAccessOrFunctionCallExpr n s
     else ErrorUnexpectedHint ''expected primary expression'' s)"
| "ParseTypeNameOrFunctionCallExpr 0 = (\<lambda>s. Inl OutOfFuel)"
| "ParseTypeNameOrFunctionCallExpr (Suc n) = (\<lambda>s.
     if \<not> IsDataType s then ErrorUnexpectedHint ''expected type name or function call expression'' s
     else bind AcceptIt (\<lambda>t s.
       if Is LBracket s then
         bind Make (\<lambda>a. ParseFunctionCallExpr n (Some (VarIdent a (Spell t) [] None))) s
       else bind Make (\<lambda>a. ret (TypeNameExpr a (Spell t))) s) s)"
| "ParseUnaryExpr 0 = (\<lambda>s. Inl OutOfFuel)"
| "ParseUnaryExpr (Suc n) = (\<lambda>s.
     if \<not> Is UnaryOp s \<and> \<not> IsSpell BinaryOp ''-'' s then
       ErrorUnexpectedHint ''expected unary expression operator'' s
     else bind Make (\<lambda>a. bind AcceptIt (\<lambda>t. bind (ParsePrimaryExpr n) (\<lambda>e.
            ret (UnaryExpr a (Spell t) e)))) s)"
| "ParseBracketOrCastExpr 0 = (\<lambda>s. Inl OutOfFuel)"
| "ParseBracketOrCastExpr (Suc n) =
     bind (Accept LBracket) (\<lambda>_. bind (ParseExpr n True None) (\<lambda>expr.
     bind (Accept RBracket) (\<lambda>_ s.
       if IsPrimaryExpr s \<and>
          (case expr of TypeNameExpr _ _ \<Rightarrow> True
                      | VarAccessExpr _ _ _ assignExpr \<Rightarrow> assignExpr = None
                      | _ \<Rightarrow> False)
       then bind Make (\<lambda>a. bind (ParsePrimaryExpr n) (\<lambda>e. ret (CastExpr a expr e))) s
       else bind Make (\<lambda>a. ret (BracketExpr a expr)) s)))"
| "ParseVarAccessOrFunctionCallExpr 0 = (\<lambda>s. Inl OutOfFuel)"
| "ParseVarAccessOrFunctionCallExpr (Suc n) =
     bind (ParseVarIdent n) (\<lambda>varIdent s.
       if Is LBracket s then ParseFunctionCallExpr n (Some varIdent) s
       else ParseVarAccessExpr n (Some varIdent) s)"
| "ParseVarAccessExpr 0 varIdent = (\<lambda>s. Inl OutOfFuel)"
| "ParseVarAccessExpr (Suc n) varIdent =
     bind Make (\<lambda>a.
     bind (case varIdent of Some v \<Rightarrow> ret v | None \<Rightarrow> ParseVarIdent n) (\<lambda>v s.
       if Is AssignOp s then
         bind AcceptIt (\<lambda>t. bind (ParseExpr n False None) (\<lambda>e.
           ret (VarAccessExpr a v (Spell t) (Some e)))) s
       else ret (VarAccessExpr a v [] None) s))"
| "ParseFunctionCallExpr 0 varIdent = (\<lambda>s. Inl OutOfFuel)"
| "ParseFunctionCallExpr (Suc n) varIdent =
     bind Make (\<lambda>a. bind (ParseFunctionCall n varIdent) (\<lambda>call. ret (FunctionCallExpr a call)))"
| "ParseFunctionCall 0 varIdent = (\<lambda>s. Inl OutOfFuel)"
| "ParseFunctionCall (Suc n) varIdent =
     bind Make (\<lambda>a.
     bind (case varIdent of
             Some v \<Rightarrow> ret v
           | None \<Rightarrow> (\<lambda>s. if IsDataType s then
                               bind Make (\<lambda>b. bind AcceptIt (\<lambda>t. ret (VarIdent b (Spell t) [] None))) s
                             else ParseVarIdent n s)) (\<lambda>v.
     bind (ParseArgumentList n) (\<lambda>arguments. ret (FunctionCall a v arguments))))"
| "ParseInitializerExpr 0 = (\<lambda>s. Inl OutOfFuel)"
| "ParseInitializerExpr (Suc n) =
     bind Make (\<lambda>a. bind (ParseInitializerList n) (\<lambda>exprs. ret (InitializerExpr a exprs)))"
| "ParseVarIdent 0 = (\<lambda>s. Inl OutOfFuel)"
| "ParseVarIdent (Suc n) =
     bind Make (\<lambda>a. bind (Accept Ident) (\<lambda>t. bind (ParseArrayDimensionList n []) (\<lambda>arrayIndices s.
       if Is Dot s then
         bind AcceptIt (\<lambda>_. bind (ParseVarIdent n) (\<lambda>next.
           ret (VarIdent a (Spell t) arrayIndices (Some next)))) s
       else ret (VarIdent a (Spell t) arrayIndices None) s)))"
| "ParseArrayDimension 0 = (\<lambda>s. Inl OutOfFuel)"
| "ParseArrayDimension (Suc n) =
     bind (Accept LParen) (\<lambda>_. bind (ParseExpr n False None) (\<lambda>ast.
     bind (Accept RParen) (\<lambda>_. ret ast)))"
| "ParseArrayDimensionList 0 arrayDims = (\<lambda>s. Inl OutOfFuel)"
| "ParseArrayDimensionList (Suc n) arrayDims = (\<lambda>s.
     if Is LParen s then
       bind (ParseArrayDimension n) (\<lambda>d. ParseArrayDimensionList n (arrayDims @ [d])) s
     else ret arrayDims s)"
| "ParseExprList 0 listTerminatorToken allowLastComma = (\<lambda>s. Inl OutOfFuel)"
| "ParseExprList (Suc n) listTerminatorToken allowLastComma = (\<lambda>s.
     if \<not> Is listTerminatorToken s then ParseExprList_loop n listTerminatorToken allowLastComma [] s
     else ret [] s)"
| "ParseExprList_loop 0 listTerminatorToken allowLastComma exprs = (\<lambda>s. Inl OutOfFuel)"
| "ParseExprList_loop (Suc n) listTerminatorToken allowLastComma exprs =
     bind (ParseExpr n False None) (\<lambda>e s.
       if Is Comma s then
         bind AcceptIt (\<lambda>_ s.
           if allowLastComma \<and> Is listTerminatorToken s then ret (exprs @ [e]) s
           else ParseExprList_loop n listTerminatorToken allowLastComma (exprs @ [e]) s) s
       else ret (exprs @ [e]) s)"
| "ParseArgumentList 0 = (\<lambda>s. Inl OutOfFuel)"
| "ParseArgumentList (Suc n) =
     bind (Accept LBracket) (\<lambda>_. bind (ParseExprList n RBracket False) (\<lambda>arguments.
     bind (Accept RBracket) (\<lambda>_. ret arguments)))"
| "ParseInitializerList 0 = (\<lambda>s. Inl OutOfFuel)"
| "ParseInitializerList (Suc n) =
     bind (Accept LCurly) (\<lambda>_. bind (ParseExprList n RCurly True) (\<lambda>arguments.
     bind (Accept RCurly) (\<lambda>_. ret arguments)))"
  by pat_completeness auto
termination
  by (relation "measure
    (case_sum
      (case_sum
        (case_sum
          (case_sum (\<lambda>p. size (fst p)) size)
          (case_sum size size))
        (case_sum
          (case_sum size size)
          (case_sum (\<lambda>p. size (fst p)) (\<lambda>p. size (fst p)))))
      (case_sum
        (case_sum
          (case_sum (\<lambda>p. size (fst p)) size)
          (case_sum size size))
        (case_sum
          (case_sum (\<lambda>p. size (fst p)) (\<lambda>p. size (fst p)))
          (case_sum (\<lambda>p. size (fst p)) (case_sum size size)))))") simp_all

section \<open>Variables and declarations\<close>

datatype PackOffset = PackOffset AST string string

datatype VarSemantic = VarSemantic AST string string "PackOffset option"

datatype VarDecl =
  VarDecl AST (VarDecl_name: string) "Expr list" "VarSemantic list" "Expr option"
    (declStmntRef: "nat option")

datatype BufferDeclIdent = BufferDeclIdent AST string string

datatype VarType =
  VarType AST (baseType: string) (structType: "Structure option")
    (symbolRef: "nat option")
and Structure =
  Structure (Structure_ast: AST) (Structure_name: string) (members: "VarDeclStmnt list")
and VarDeclStmnt =
  VarDeclStmnt (VarDeclStmnt_ast: AST) (inputModifier: string) "string list" "string list"
    (varType: VarType) (varDecls: "VarDecl list")

definition set_declStmntRef :: "nat \<Rightarrow> VarDecl \<Rightarrow> VarDecl" where
  "set_declStmntRef p d =
     (case d of VarDecl a nm dims sems ini _ \<Rightarrow> VarDecl a nm dims sems ini (Some p))"

definition ParseRegister :: "bool \<Rightarrow> string P" where
  "ParseRegister parseColon =
     bind (if parseColon then bind (Accept Colon) (\<lambda>_. ret ()) else ret ()) (\<lambda>_.
     bind (Accept Register) (\<lambda>_. bind (Accept LBracket) (\<lambda>_.
     bind (Accept Ident) (\<lambda>t. bind (Accept RBracket) (\<lambda>_. ret (Spell t))))))"

definition ParseSemantic :: "string P" where
  "ParseSemantic = bind (Accept Colon) (\<lambda>_. bind (Accept Ident) (\<lambda>t. ret (Spell t)))"

definition ParsePackOffset :: "bool \<Rightarrow> PackOffset P" where
  "ParsePackOffset parseColon =
     bind Make (\<lambda>a.
     bind (if parseColon then bind (Accept Colon) (\<lambda>_. ret ()) else ret ()) (\<lambda>_.
     bind (Accept PackOffset_tok) (\<lambda>_. bind (Accept LBracket) (\<lambda>_.
     bind (Accept Ident) (\<lambda>r.
     bind (\<lambda>s. if Is Dot s then bind AcceptIt (\<lambda>_. bind (Accept Ident) (\<lambda>c. ret (Spell c))) s
                else ret [] s) (\<lambda>vectorComponent.
     bind (Accept RBracket) (\<lambda>_. ret (PackOffset a (Spell r) vectorComponent))))))))"

definition ParseVarSemantic :: "VarSemantic P" where
  "ParseVarSemantic =
     bind Make (\<lambda>a. bind (Accept Colon) (\<lambda>_ s.
       if Is Register s then
         bind (ParseRegister False) (\<lambda>r. ret (VarSemantic a [] r None)) s
       else if Is PackOffset_tok s then
         bind (ParsePackOffset False) (\<lambda>p. ret (VarSemantic a [] [] (Some p))) s
       else bind (Accept Ident) (\<lambda>t. ret (VarSemantic a (Spell t) [] None)) s))"

fun ParseVarSemanticList :: "nat \<Rightarrow> VarSemantic list \<Rightarrow> VarSemantic list P" where
  "ParseVarSemanticList 0 semantics = (\<lambda>s. Inl OutOfFuel)"
| "ParseVarSemanticList (Suc n) semantics = (\<lambda>s.
     if Is Colon s then
       bind ParseVarSemantic (\<lambda>v. ParseVarSemanticList n (semantics @ [v])) s
     else ret semantics s)"

definition ParseInitializer :: "nat \<Rightarrow> Expr P" where
  "ParseInitializer n = bind (AcceptSpell AssignOp ''='') (\<lambda>_. ParseExpr n False None)"

definition ParseVarDecl :: "nat \<Rightarrow> VarDecl P" where
  "ParseVarDecl n =
     bind Make (\<lambda>a. bind (Accept Ident) (\<lambda>t.
     bind (ParseArrayDimensionList n []) (\<lambda>arrayDims.
     bind (ParseVarSemanticList n []) (\<lambda>semantics s.
       if IsSpell AssignOp ''='' s then
         bind (ParseInitializer n) (\<lambda>e.
           ret (VarDecl a (Spell t) arrayDims semantics (Some e) None)) s
       else ret (VarDecl a (Spell t) arrayDims semantics None None) s))))"

fun ParseVarDeclList :: "nat \<Rightarrow> VarDecl list \<Rightarrow> VarDecl list P" where
  "ParseVarDeclList 0 ds = (\<lambda>s. Inl OutOfFuel)"
| "ParseVarDeclList (Suc n) ds =
     bind (ParseVarDecl n) (\<lambda>d s.
       if Is Comma s then bind AcceptIt (\<lambda>_. ParseVarDeclList n (ds @ [d])) s
       else ret (ds @ [d]) s)"

fun ParseAttribute_loop :: "nat \<Rightarrow> Expr list \<Rightarrow> Expr list P" where
  "ParseAttribute_loop 0 arguments = (\<lambda>s. Inl OutOfFuel)"
| "ParseAttribute_loop (Suc n) arguments =
     bind (ParseExpr n False None) (\<lambda>e s.
       if Is Comma s then bind AcceptIt (\<lambda>_. ParseAttribute_loop n (arguments @ [e])) s
       else ret (arguments @ [e]) s)"

definition ParseAttribute :: "nat \<Rightarrow> FunctionCall P" where
  "ParseAttribute n =
     bind Make (\<lambda>a. bind (Accept LParen) (\<lambda>_. bind Make (\<lambda>b. bind (Accept Ident) (\<lambda>t.
     bind (\<lambda>s. if Is LBracket s then
                  bind AcceptIt (\<lambda>_.
                  bind (\<lambda>s. if \<not> Is RBracket s then ParseAttribute_loop n [] s else ret [] s)
                    (\<lambda>arguments. bind (Accept RBracket) (\<lambda>_. ret arguments))) s
                else ret [] s) (\<lambda>arguments.
     bind (Accept RParen) (\<lambda>_.
       ret (FunctionCall a (VarIdent b (Spell t) [] None) arguments)))))))"

fun ParseAttributeList :: "nat \<Rightarrow> FunctionCall list \<Rightarrow> FunctionCall list P" where
  "ParseAttributeList 0 attribs = (\<lambda>s. Inl OutOfFuel)"
| "ParseAttributeList (Suc n) attribs = (\<lambda>s.
     if Is LParen s then
       bind (ParseAttribute n) (\<lambda>a. ParseAttributeList n (attribs @ [a])) s
     else ret attribs s)"

definition ParseBufferDeclIdent :: "BufferDeclIdent P" where
  "ParseBufferDeclIdent =
     bind Make (\<lambda>a. bind (Accept Ident) (\<lambda>t s.
       if Is Colon s then bind (ParseRegister True) (\<lambda>r. ret (BufferDeclIdent a (Spell t) r)) s
       else ret (BufferDeclIdent a (Spell t) []) s))"

fun ParseBufferDeclIdentList_loop :: "nat \<Rightarrow> BufferDeclIdent list \<Rightarrow> BufferDeclIdent list P" where
  "ParseBufferDeclIdentList_loop 0 bufferIdents = (\<lambda>s. Inl OutOfFuel)"
| "ParseBufferDeclIdentList_loop (Suc n) bufferIdents = (\<lambda>s.
     if Is Comma s then
       bind AcceptIt (\<lambda>_. bind ParseBufferDeclIdent (\<lambda>b.
         ParseBufferDeclIdentList_loop n (bufferIdents @ [b]))) s
     else ret bufferIdents s)"

definition ParseBufferDeclIdentList :: "nat \<Rightarrow> BufferDeclIdent list P" where
  "ParseBufferDeclIdentList n =
     bind ParseBufferDeclIdent (\<lambda>b. ParseBufferDeclIdentList_loop n [b])"

function ParseStructure :: "nat \<Rightarrow> Structure P"
and ParseVarDeclStmntList :: "nat \<Rightarrow> VarDeclStmnt list P"
and ParseVarDeclStmntList_loop :: "nat \<Rightarrow> VarDeclStmnt list \<Rightarrow> VarDeclStmnt list P"
and ParseVarDeclStmnt :: "nat \<Rightarrow> VarDeclStmnt P"
and ParseVarDeclStmnt_loop :: "nat \<Rightarrow> string list \<Rightarrow> string list \<Rightarrow> (string list \<times> string list \<times> VarType) P"
where
  "ParseStructure 0 = (\<lambda>s. Inl OutOfFuel)"
| "ParseStructure (Suc n) =
     bind Make (\<lambda>a. bind (Accept Struct) (\<lambda>_. bind (Accept Ident) (\<lambda>t.
     bind (ParseVarDeclStmntList n) (\<lambda>ms. ret (Structure a (Spell t) ms)))))"
| "ParseVarDeclStmntList 0 = (\<lambda>s. Inl OutOfFuel)"
| "ParseVarDeclStmntList (Suc n) =
     bind (Accept LCurly) (\<lambda>_. bind (ParseVarDeclStmntList_loop n []) (\<lambda>ms.
     bind AcceptIt (\<lambda>_. ret ms)))"
| "ParseVarDeclStmntList_loop 0 ms = (\<lambda>s. Inl OutOfFuel)"
| "ParseVarDeclStmntList_loop (Suc n) ms = (\<lambda>s.
     if \<not> Is RCurly s then
       bind (ParseVarDeclStmnt n) (\<lambda>m. ParseVarDeclStmntList_loop n (ms @ [m])) s
     else ret ms s)"
| "ParseVarDeclStmnt 0 = (\<lambda>s. Inl OutOfFuel)"
| "ParseVarDeclStmnt (Suc n) =
     bind Make (\<lambda>a. bind (ParseVarDeclStmnt_loop n [] []) (\<lambda>(sms, tms, vt).
     bind (ParseVarDeclList n []) (\<lambda>ds. bind Semi (\<lambda>_.
       ret (VarDeclStmnt a [] tms sms vt (map (set_declStmntRef (addr a)) ds))))))"
| "ParseVarDeclStmnt_loop 0 sms tms = (\<lambda>s. Inl OutOfFuel)"
| "ParseVarDeclStmnt_loop (Suc n) sms tms = (\<lambda>s.
     if Is StorageModifier s then
       bind AcceptIt (\<lambda>t. ParseVarDeclStmnt_loop n (sms @ [Spell t]) tms) s
     else if Is TypeModifier s then
       bind AcceptIt (\<lambda>t. ParseVarDeclStmnt_loop n sms (tms @ [Spell t])) s
     else if Is Ident s then
       bind AcceptIt (\<lambda>t. bind Make (\<lambda>b. ret (sms, tms, VarType b (Spell t) None None))) s
     else if Is Struct s then
       bind Make (\<lambda>b. bind (ParseStructure n) (\<lambda>st.
         ret (sms, tms, VarType b [] (Some st) None))) s
     else if IsDataType s then
       bind Make (\<lambda>b. bind AcceptIt (\<lambda>t. ret (sms, tms, VarType b (Spell t) None None))) s
     else ErrorUnexpected s)"
  by pat_completeness auto
termination
  by (relation "measure
    (case_sum
      (case_sum size size)
      (case_sum
        (\<lambda>p. size (fst p))
        (case_sum size (\<lambda>p. size (fst p)))))") simp_all

definition ParseVarType :: "nat \<Rightarrow> bool \<Rightarrow> VarType P" where
  "ParseVarType n parseVoidType =
     bind Make (\<lambda>a s.
       if Is Void s then
         (if parseVoidType then bind AcceptIt (\<lambda>t. ret (VarType a (Spell t) None None)) s
          else Error ([CHR 0x27] @ ''void'' @ [CHR 0x27] @ '' type not allowed in this context'') s)
       else if Is Ident s \<or> IsDataType s then
         bind AcceptIt (\<lambda>t. ret (VarType a (Spell t) None None)) s
       else if Is Struct s then
         bind (ParseStructure n) (\<lambda>st.
           ret (VarType a [] (Some st) (Some (addr (Structure_ast st))))) s
       else ErrorUnexpectedHint ''expected type specifier'' s)"

text \<open>
  The loop of \<open>ParseParameter\<close> accepts one token in each round, so it ends: the
  scanner delivers \<open>EndOfStream\<close>, which is no modifier, once its tokens are used up.
  The third test of the chain, \<open>else if (Is(Tokens::StorageModifier))\<close>, holds whenever
  it is reached.
\<close>

function ParseParameter_loop ::
  "string \<Rightarrow> string list \<Rightarrow> string list \<Rightarrow> (string \<times> string list \<times> string list) P" where
  "ParseParameter_loop im tms sms s =
     (if Is InputModifier s \<or> Is TypeModifier s \<or> Is StorageModifier s then
        (if Is InputModifier s then
           (case AcceptIt s of Inl e \<Rightarrow> Inl e
            | Inr (t, s') \<Rightarrow> ParseParameter_loop (Spell t) tms sms s')
         else if Is TypeModifier s then
           (case AcceptIt s of Inl e \<Rightarrow> Inl e
            | Inr (t, s') \<Rightarrow> ParseParameter_loop im (tms @ [Spell t]) sms s')
         else
           (case AcceptIt s of Inl e \<Rightarrow> Inl e
            | Inr (t, s') \<Rightarrow> ParseParameter_loop im tms (sms @ [Spell t]) s'))
      else ret (im, tms, sms) s)"
  by pat_completeness auto
termination
  by (relation "measure (\<lambda>(im, tms, sms, s).
        length (pending (scanner s)) + (if Type (tkn s) = EndOfStream then 0 else 1))")
     (auto simp: AcceptIt_def Next_def Is_def split: list.splits)

definition ParseParameter :: "nat \<Rightarrow> VarDeclStmnt P" where
  "ParseParameter n =
     bind Make (\<lambda>a. bind (ParseParameter_loop [] [] []) (\<lambda>(im, tms, sms).
     bind (ParseVarType n False) (\<lambda>vt. bind (ParseVarDecl n) (\<lambda>d.
       ret (VarDeclStmnt a im tms sms vt [d])))))"

fun ParseParameterList_loop :: "nat \<Rightarrow> VarDeclStmnt list \<Rightarrow> VarDeclStmnt list P" where
  "ParseParameterList_loop 0 parameters = (\<lambda>s. Inl OutOfFuel)"
| "ParseParameterList_loop (Suc n) parameters =
     bind (ParseParameter n) (\<lambda>p s.
       if Is Comma s then bind AcceptIt (\<lambda>_. ParseParameterList_loop n (parameters @ [p])) s
       else ret (parameters @ [p]) s)"

definition ParseParameterList :: "nat \<Rightarrow> VarDeclStmnt list P" where
  "ParseParameterList n =
     bind (Accept LBracket) (\<lambda>_.
     bind (\<lambda>s. if \<not> Is RBracket s then ParseParameterList_loop n [] s else ret [] s) (\<lambda>ps.
     bind (Accept RBracket) (\<lambda>_. ret ps)))"


section \<open>Statements\<close>

datatype Stmnt =
    NullStmnt AST
  | DirectiveStmnt AST string
  | CodeBlockStmnt AST CodeBlock
  | ForLoopStmnt AST "FunctionCall list" Stmnt "Expr option" "Expr option" Stmnt
  | WhileLoopStmnt AST "FunctionCall list" Expr Stmnt
  | DoWhileLoopStmnt AST "FunctionCall list" Stmnt Expr
  | IfStmnt AST "FunctionCall list" Expr Stmnt "ElseStmnt option"
  | SwitchStmnt AST "FunctionCall list" Expr "SwitchCase list"
  | Stmnt_VarDeclStmnt VarDeclStmnt
  | AssignStmnt AST VarIdent string Expr
  | ExprStmnt AST Expr
  | FunctionCallStmnt AST FunctionCall
  | ReturnStmnt AST "Expr option"
  | StructDeclStmnt AST Structure
  | CtrlTransferStmnt AST string
and ElseStmnt =
    ElseStmnt AST Stmnt
and CodeBlock =
    CodeBlock AST "Stmnt list"
and SwitchCase =
    SwitchCase AST "Expr option" "Stmnt list"

definition ParseNullStmnt :: "Stmnt P" where
  "ParseNullStmnt = bind Make (\<lambda>a. bind Semi (\<lambda>_. ret (NullStmnt a)))"

definition ParseDirectiveStmnt :: "Stmnt P" where
  "ParseDirectiveStmnt =
     bind Make (\<lambda>a. bind (Accept Directive) (\<lambda>t. ret (DirectiveStmnt a (Spell t))))"

definition ParseCtrlTransferStmnt :: "Stmnt P" where
  "ParseCtrlTransferStmnt =
     bind Make (\<lambda>a. bind (Accept CtrlTransfer) (\<lambda>t. bind Semi (\<lambda>_.
       ret (CtrlTransferStmnt a (Spell t)))))"

definition ParseReturnStmnt :: "nat \<Rightarrow> Stmnt P" where
  "ParseReturnStmnt n =
     bind Make (\<lambda>a. bind (Accept Return) (\<lambda>_.
     bind (\<lambda>s. if \<not> Is Semicolon s then bind (ParseExpr n True None) (\<lambda>e. ret (Some e)) s
                else ret None s) (\<lambda>expr.
     bind Semi (\<lambda>_. ret (ReturnStmnt a expr)))))"

definition ParseExprStmnt :: "nat \<Rightarrow> VarIdent option \<Rightarrow> Stmnt P" where
  "ParseExprStmnt n varIdent =
     bind Make (\<lambda>a.
     bind (case varIdent of
             Some v \<Rightarrow> bind Make (\<lambda>b. ParseExpr n True (Some (VarAccessExpr b v [] None)))
           | None \<Rightarrow> ParseExpr n True None) (\<lambda>e.
     bind Semi (\<lambda>_. ret (ExprStmnt a e))))"

definition ParseStructDeclOrVarDeclStmnt :: "nat \<Rightarrow> Stmnt P" where
  "ParseStructDeclOrVarDeclStmnt n =
     bind Make (\<lambda>a. bind (ParseStructure n) (\<lambda>st s.
       if \<not> Is Semicolon s then
         bind Make (\<lambda>b. bind Make (\<lambda>c. bind (ParseVarDeclList n []) (\<lambda>ds. bind Semi (\<lambda>_.
           ret (Stmnt_VarDeclStmnt
                  (VarDeclStmnt b [] [] [] (VarType c [] (Some st) None) ds)))))) s
       else bind Semi (\<lambda>_. ret (StructDeclStmnt a st)) s))"

definition ParseVarDeclOrAssignOrFunctionCallStmnt :: "nat \<Rightarrow> Stmnt P" where
  "ParseVarDeclOrAssignOrFunctionCallStmnt n =
     bind (ParseVarIdent n) (\<lambda>varIdent s.
       if Is LBracket s then
         bind Make (\<lambda>a. bind (ParseFunctionCall n (Some varIdent)) (\<lambda>call. bind Semi (\<lambda>_.
           ret (FunctionCallStmnt a call)))) s
       else if Is AssignOp s then
         bind Make (\<lambda>a. bind AcceptIt (\<lambda>t. bind (ParseExpr n True None) (\<lambda>e. bind Semi (\<lambda>_.
           ret (AssignStmnt a varIdent (Spell t) e))))) s
       else if IsSpell UnaryOp ''++'' s \<or> IsSpell UnaryOp ''--'' s then
         ParseExprStmnt n (Some varIdent) s
       else
         (case varIdent of
            VarIdent _ ident _ None \<Rightarrow>
              bind Make (\<lambda>a. bind Make (\<lambda>b. bind (ParseVarDeclList n []) (\<lambda>ds. bind Semi (\<lambda>_.
                ret (Stmnt_VarDeclStmnt
                       (VarDeclStmnt a [] [] [] (VarType b ident None None)
                          (map (set_declStmntRef (addr a)) ds))))))) s
          | VarIdent _ _ _ (Some _) \<Rightarrow>
              ErrorUnexpectedHint
                ''expected variable declaration, assignment or function call statement'' s))"

function ParseStmnt :: "nat \<Rightarrow> Stmnt P"
and ParseStmntList :: "nat \<Rightarrow> Stmnt list \<Rightarrow> Stmnt list P"
and ParseCodeBlock :: "nat \<Rightarrow> CodeBlock P"
and ParseCodeBlockStmnt :: "nat \<Rightarrow> Stmnt P"
and ParseForLoopStmnt :: "nat \<Rightarrow> FunctionCall list \<Rightarrow> Stmnt P"
and ParseWhileLoopStmnt :: "nat \<Rightarrow> FunctionCall list \<Rightarrow> Stmnt P"
and ParseDoWhileLoopStmnt :: "nat \<Rightarrow> FunctionCall list \<Rightarrow> Stmnt P"
and ParseIfStmnt :: "nat \<Rightarrow> FunctionCall list \<Rightarrow> Stmnt P"
and ParseElseStmnt :: "nat \<Rightarrow> ElseStmnt P"
and ParseSwitchStmnt :: "nat \<Rightarrow> FunctionCall list \<Rightarrow> Stmnt P"
and ParseSwitchCaseList :: "nat \<Rightarrow> SwitchCase list \<Rightarrow> SwitchCase list P"
and ParseSwitchCase :: "nat \<Rightarrow> SwitchCase P"
and ParseSwitchCase_loop :: "nat \<Rightarrow> Stmnt list \<Rightarrow> Stmnt list P"
where
  "ParseStmnt 0 = (\<lambda>s. Inl OutOfFuel)"
| "ParseStmnt (Suc n) =
     bind (\<lambda>s. if Is LParen s then ParseAttributeList n [] s else ret [] s) (\<lambda>attribs s.
       if Is Semicolon s then ParseNullStmnt s
       else if Is Directive s then ParseDirectiveStmnt s
       else if Is LCurly s then ParseCodeBlockStmnt n s
       else if Is Return s then ParseReturnStmnt n s
       else if Is Ident s then ParseVarDeclOrAssignOrFunctionCallStmnt n s
       else if Is For s then ParseForLoopStmnt n attribs s
       else if Is While s then ParseWhileLoopStmnt n attribs s
       else if Is Do s then ParseDoWhileLoopStmnt n attribs s
       else if Is If_tok s then ParseIfStmnt n attribs s
       else if Is Switch s then ParseSwitchStmnt n attribs s
       else if Is CtrlTransfer s then ParseCtrlTransferStmnt s
       else if Is Struct s then ParseStructDeclOrVarDeclStmnt n s
       else if Is TypeModifier s \<or> Is StorageModifier s then
         bind (ParseVarDeclStmnt n) (\<lambda>v. ret (Stmnt_VarDeclStmnt v)) s
       else if IsDataType s then
         bind (ParseVarDeclStmnt n) (\<lambda>v. ret (Stmnt_VarDeclStmnt v)) s
       else ParseExprStmnt n None s)"
| "ParseStmntList 0 stmnts = (\<lambda>s. Inl OutOfFuel)"
| "ParseStmntList (Suc n) stmnts = (\<lambda>s.
     if \<not> Is RCurly s then bind (ParseStmnt n) (\<lambda>st. ParseStmntList n (stmnts @ [st])) s
     else ret stmnts s)"
| "ParseCodeBlock 0 = (\<lambda>s. Inl OutOfFuel)"
| "ParseCodeBlock (Suc n) =
     bind Make (\<lambda>a. bind (Accept LCurly) (\<lambda>_. bind (ParseStmntList n []) (\<lambda>stmnts.
     bind (Accept RCurly) (\<lambda>_. ret (CodeBlock a stmnts)))))"
| "ParseCodeBlockStmnt 0 = (\<lambda>s. Inl OutOfFuel)"
| "ParseCodeBlockStmnt (Suc n) =
     bind Make (\<lambda>a. bind (ParseCodeBlock n) (\<lambda>cb. ret (CodeBlockStmnt a cb)))"
| "ParseForLoopStmnt 0 attribs = (\<lambda>s. Inl OutOfFuel)"
| "ParseForLoopStmnt (Suc n) attribs =
     bind Make (\<lambda>a. bind (Accept For) (\<lambda>_. bind (Accept LBracket) (\<lambda>_.
     bind (ParseStmnt n) (\<lambda>initSmnt.
     bind (\<lambda>s. if \<not> Is Semicolon s then bind (ParseExpr n True None) (\<lambda>e. ret (Some e)) s
                else ret None s) (\<lambda>condition.
     bind Semi (\<lambda>_.
     bind (\<lambda>s. if \<not> Is RBracket s then bind (ParseExpr n True None) (\<lambda>e. ret (Some e)) s
                else ret None s) (\<lambda>iteration.
     bind (Accept RBracket) (\<lambda>_. bind (ParseStmnt n) (\<lambda>bodyStmnt.
       ret (ForLoopStmnt a attribs initSmnt condition iteration bodyStmnt))))))))))"
| "ParseWhileLoopStmnt 0 attribs = (\<lambda>s. Inl OutOfFuel)"
| "ParseWhileLoopStmnt (Suc n) attribs =
     bind Make (\<lambda>a. bind (Accept While) (\<lambda>_. bind (Accept LBracket) (\<lambda>_.
     bind (ParseExpr n True None) (\<lambda>condition. bind (Accept RBracket) (\<lambda>_.
     bind (ParseStmnt n) (\<lambda>bodyStmnt.
       ret (WhileLoopStmnt a attribs condition bodyStmnt)))))))"
| "ParseDoWhileLoopStmnt 0 attribs = (\<lambda>s. Inl OutOfFuel)"
| "ParseDoWhileLoopStmnt (Suc n) attribs =
     bind Make (\<lambda>a. bind (Accept Do) (\<lambda>_. bind (ParseStmnt n) (\<lambda>bodyStmnt.
     bind (Accept While) (\<lambda>_. bind (Accept LBracket) (\<lambda>_.
     bind (ParseExpr n True None) (\<lambda>condition. bind (Accept RBracket) (\<lambda>_.
     bind Semi (\<lambda>_. ret (DoWhileLoopStmnt a attribs bodyStmnt condition)))))))))"
| "ParseIfStmnt 0 attribs = (\<lambda>s. Inl OutOfFuel)"
| "ParseIfStmnt (Suc n) attribs =
     bind Make (\<lambda>a. bind (Accept If_tok) (\<lambda>_. bind (Accept LBracket) (\<lambda>_.
     bind (ParseExpr n True None) (\<lambda>condition. bind (Accept RBracket) (\<lambda>_.
     bind (ParseStmnt n) (\<lambda>bodyStmnt s.
       if Is Else s then
         bind (ParseElseStmnt n) (\<lambda>e. ret (IfStmnt a attribs condition bodyStmnt (Some e))) s
       else ret (IfStmnt a attribs condition bodyStmnt None) s))))))"
| "ParseElseStmnt 0 = (\<lambda>s. Inl OutOfFuel)"
| "ParseElseStmnt (Suc n) =
     bind Make (\<lambda>a. bind (Accept Else) (\<lambda>_. bind (ParseStmnt n) (\<lambda>bodyStmnt.
       ret (ElseStmnt a bodyStmnt))))"
| "ParseSwitchStmnt 0 attribs = (\<lambda>s. Inl OutOfFuel)"
| "ParseSwitchStmnt (Suc n) attribs =
     bind Make (\<lambda>a. bind (Accept Switch) (\<lambda>_. bind (Accept LBracket) (\<lambda>_.
     bind (ParseExpr n True None) (\<lambda>selector. bind (Accept RBracket) (\<lambda>_.
     bind (Accept LCurly) (\<lambda>_. bind (ParseSwitchCaseList n []) (\<lambda>cases.
     bind (Accept RCurly) (\<lambda>_. ret (SwitchStmnt a attribs selector cases)))))))))"
| "ParseSwitchCaseList 0 cases = (\<lambda>s. Inl OutOfFuel)"
| "ParseSwitchCaseList (Suc n) cases = (\<lambda>s.
     if Is Case s \<or> Is Default s then
       bind (ParseSwitchCase n) (\<lambda>c. ParseSwitchCaseList n (cases @ [c])) s
     else ret cases s)"
| "ParseSwitchCase 0 = (\<lambda>s. Inl OutOfFuel)"
| "ParseSwitchCase (Suc n) =
     bind Make (\<lambda>a.
     bind (\<lambda>s. if Is Case s then
                  bind (Accept Case) (\<lambda>_. bind (ParseExpr n False None) (\<lambda>e. ret (Some e))) s
                else bind (Accept Default) (\<lambda>_. ret None) s) (\<lambda>expr.
     bind (Accept Colon) (\<lambda>_. bind (ParseSwitchCase_loop n []) (\<lambda>stmnts.
       ret (SwitchCase a expr stmnts)))))"
| "ParseSwitchCase_loop 0 stmnts = (\<lambda>s. Inl OutOfFuel)"
| "ParseSwitchCase_loop (Suc n) stmnts = (\<lambda>s.
     if \<not> Is Case s \<and> \<not> Is Default s \<and> \<not> Is RCurly s then
       bind (ParseStmnt n) (\<lambda>st. ParseSwitchCase_loop n (stmnts @ [st])) s
     else ret stmnts s)"
  by pat_completeness auto
termination
  by (relation "measure
    (case_sum
      (case_sum
        (case_sum size (case_sum (\<lambda>p. size (fst p)) size))
        (case_sum
          size
          (case_sum (\<lambda>p. size (fst p)) (\<lambda>p. size (fst p)))))
      (case_sum
        (case_sum
          (\<lambda>p. size (fst p))
          (case_sum (\<lambda>p. size (fst p)) size))
        (case_sum
          (case_sum (\<lambda>p. size (fst p)) (\<lambda>p. size (fst p)))
          (case_sum size (\<lambda>p. size (fst p))))))") simp_all

section \<open>Global declarations\<close>

datatype GlobalDecl =
    FunctionDecl AST "FunctionCall list" VarType string "VarDeclStmnt list" string
      "CodeBlock option"
  | UniformBufferDecl AST string string string "VarDeclStmnt list"
  | TextureDecl AST string string "BufferDeclIdent list"
  | SamplerDecl AST string "BufferDeclIdent list"
  | StructDecl AST Structure
  | DirectiveDecl AST string

datatype Program = Program AST "GlobalDecl list"

definition ParseFunctionDecl :: "nat \<Rightarrow> GlobalDecl P" where
  "ParseFunctionDecl n =
     bind Make (\<lambda>a. bind (ParseAttributeList n []) (\<lambda>attribs.
     bind (ParseVarType n True) (\<lambda>returnType. bind (Accept Ident) (\<lambda>t.
     bind (ParseParameterList n) (\<lambda>parameters.
     bind (\<lambda>s. if Is Colon s then ParseSemantic s else ret [] s) (\<lambda>semantic s.
       if Is Semicolon s then
         bind AcceptIt (\<lambda>_.
           ret (FunctionDecl a attribs returnType (Spell t) parameters semantic None)) s
       else
         bind (ParseCodeBlock n) (\<lambda>cb.
           ret (FunctionDecl a attribs returnType (Spell t) parameters semantic (Some cb))) s))))))"

definition ParseUniformBufferDecl :: "nat \<Rightarrow> GlobalDecl P" where
  "ParseUniformBufferDecl n =
     bind Make (\<lambda>a. bind (Accept UniformBuffer) (\<lambda>b. bind (Accept Ident) (\<lambda>t.
     bind (\<lambda>s. if Is Colon s then ParseRegister True s else ret [] s) (\<lambda>registerName.
     bind (ParseVarDeclStmntList n) (\<lambda>ms. bind Semi (\<lambda>_.
       ret (UniformBufferDecl a (Spell b) (Spell t) registerName ms)))))))"

definition ParseTextureDecl :: "nat \<Rightarrow> GlobalDecl P" where
  "ParseTextureDecl n =
     bind Make (\<lambda>a. bind (Accept Texture) (\<lambda>t.
     bind (\<lambda>s. if IsSpell BinaryOp ''<'' s then
                  bind AcceptIt (\<lambda>_. bind (Accept ScalarType) (\<lambda>c.
                  bind (AcceptSpell BinaryOp ''>'') (\<lambda>_. ret (Spell c)))) s
                else ret [] s) (\<lambda>colorType.
     bind (ParseBufferDeclIdentList n) (\<lambda>names. bind Semi (\<lambda>_.
       ret (TextureDecl a (Spell t) colorType names))))))"

definition ParseSamplerDecl :: "nat \<Rightarrow> GlobalDecl P" where
  "ParseSamplerDecl n =
     bind Make (\<lambda>a. bind (Accept Sampler) (\<lambda>t.
     bind (ParseBufferDeclIdentList n) (\<lambda>names. bind Semi (\<lambda>_.
       ret (SamplerDecl a (Spell t) names)))))"

definition ParseStructDecl :: "nat \<Rightarrow> GlobalDecl P" where
  "ParseStructDecl n =
     bind Make (\<lambda>a. bind (ParseStructure n) (\<lambda>st. bind Semi (\<lambda>_. ret (StructDecl a st))))"

definition ParseDirectiveDecl :: "GlobalDecl P" where
  "ParseDirectiveDecl =
     bind Make (\<lambda>a. bind (Accept Directive) (\<lambda>t. ret (DirectiveDecl a (Spell t))))"

definition ParseGlobalDecl :: "nat \<Rightarrow> GlobalDecl P" where
  "ParseGlobalDecl n = (\<lambda>s.
     if Is Sampler s then ParseSamplerDecl n s
     else if Is Texture s then ParseTextureDecl n s
     else if Is UniformBuffer s then ParseUniformBufferDecl n s
     else if Is Struct s then ParseStructDecl n s
     else if Is Directive s then ParseDirectiveDecl s
     else ParseFunctionDecl n s)"

fun ParseProgram_loop :: "nat \<Rightarrow> GlobalDecl list \<Rightarrow> GlobalDecl list P" where
  "ParseProgram_loop 0 globalDecls = (\<lambda>s. Inl OutOfFuel)"
| "ParseProgram_loop (Suc n) globalDecls = (\<lambda>s.
     if \<not> Is EndOfStream s then
       bind (ParseGlobalDecl n) (\<lambda>d. ParseProgram_loop n (globalDecls @ [d])) s
     else ret globalDecls s)"

definition ParseProgram :: "nat \<Rightarrow> Program P" where
  "ParseProgram n = bind Make (\<lambda>a. bind (ParseProgram_loop n []) (\<lambda>ds. ret (Program a ds)))"


section \<open>The logger and the entry point of the parser\<close>

text \<open>Modelled from the spec: the methods of \<open>Logger\<close> are empty in Logger.h; this sink
  keeps each line with its severity and the indentation at the time, and \<open>DecIndent\<close>
  at zero does nothing.\<close>

datatype Severity = Info | Warning | Failure

record Logger =
  indent :: nat
  lines :: "(Severity \<times> nat \<times> string) list"

definition Logger_Info :: "string \<Rightarrow> Logger \<Rightarrow> Logger" where
  "Logger_Info message lg = lg\<lparr>lines := lines lg @ [(Info, indent lg, message)]\<rparr>"

definition Logger_Error :: "string \<Rightarrow> Logger \<Rightarrow> Logger" where
  "Logger_Error message lg = lg\<lparr>lines := lines lg @ [(Failure, indent lg, message)]\<rparr>"

definition IncIndent :: "Logger \<Rightarrow> Logger" where
  "IncIndent lg = lg\<lparr>indent := Suc (indent lg)\<rparr>"

definition DecIndent :: "Logger \<Rightarrow> Logger" where
  "DecIndent lg = lg\<lparr>indent := indent lg - 1\<rparr>"

text \<open>
  Modelled from the spec: \<open>ScanSource\<close> belongs to the scanner; it refuses the source
  (\<open>None\<close>) or leaves the scanner at the start of its tokens. \<open>tkn_\<close> is null until the
  first \<open>AcceptIt\<close>; the token standing for it here is never read.
\<close>

definition ScanSource :: "Token list option \<Rightarrow> HLSLScanner option" where
  "ScanSource source =
     map_option (\<lambda>toks. \<lparr>pending = toks, scanPos = \<lparr>row = 1, column = 1\<rparr>\<rparr>) source"

definition HLSLParser_new :: "HLSLScanner \<Rightarrow> HLSLParser" where
  "HLSLParser_new sc =
     \<lparr>scanner = sc,
      tkn = \<lparr>Type = EndOfStream, Spell = [], Pos = \<lparr>row = 0, column = 0\<rparr>\<rparr>,
      heap = 0\<rparr>"

text \<open>
  \<open>ParseSource\<close> returns the program pointer (\<open>None\<close> for null) and leaves the logger
  \<open>log_\<close> (\<open>None\<close> when no logger is attached) as shown. Its own result is \<open>None\<close> when the
  fuel does not suffice.
\<close>

definition ParseSource ::
  "nat \<Rightarrow> Logger option \<Rightarrow> Token list option \<Rightarrow> (Program option \<times> Logger option) option" where
  "ParseSource n log source =
     (case ScanSource source of
        None \<Rightarrow> Some (None, log)
      | Some sc \<Rightarrow>
          (case bind AcceptIt (\<lambda>_. ParseProgram n) (HLSLParser_new sc) of
             Inr (program, _) \<Rightarrow> Some (Some program, log)
           | Inl (runtime_error what) \<Rightarrow> Some (None, map_option (Logger_Error what) log)
           | Inl OutOfFuel \<Rightarrow> None))"

section \<open>The printer\<close>

text \<open>
  A visit function takes the logger and returns it with the lines added. \<open>do_all\<close> runs
  the steps of a body in order; \<open>SCOPED_INDENT\<close> is \<open>IncIndent\<close> where it stands and
  \<open>DecIndent\<close> at the end of the body.
\<close>

fun do_all :: "(Logger \<Rightarrow> Logger) list \<Rightarrow> Logger \<Rightarrow> Logger" where
  "do_all [] lg = lg"
| "do_all (f # fs) lg = do_all fs (f lg)"

text \<open>Modelled from the spec: \<open>Visit\<close>, the dispatcher of the visitor, runs the visit
  function of the node's class; on a null pointer it does nothing.\<close>

definition Visit :: "(Logger \<Rightarrow> Logger) option \<Rightarrow> Logger \<Rightarrow> Logger" where
  "Visit v lg = (case v of None \<Rightarrow> lg | Some f \<Rightarrow> f lg)"

definition Print :: "AST \<Rightarrow> string \<Rightarrow> string \<Rightarrow> Logger \<Rightarrow> Logger" where
  "Print ast astName info =
     Logger_Info (astName @ '' ('' @ ToString (pos ast) @ '')''
                  @ (if info \<noteq> [] then '' '' @ [CHR 0x22] @ info @ [CHR 0x22] else []))"

primrec VisitExpr :: "Expr \<Rightarrow> Logger \<Rightarrow> Logger"
and VisitVarIdent :: "VarIdent \<Rightarrow> Logger \<Rightarrow> Logger"
and VisitFunctionCall :: "FunctionCall \<Rightarrow> Logger \<Rightarrow> Logger"
where
  "VisitExpr (ListExpr a firstExpr nextExpr) =
     do_all [Print a ''ListExpr'' [], IncIndent, VisitExpr firstExpr, VisitExpr nextExpr, DecIndent]"
| "VisitExpr (LiteralExpr a literal) = Print a ''LiteralExpr'' literal"
| "VisitExpr (TypeNameExpr a typeName) = Print a ''TypeNameExpr'' typeName"
| "VisitExpr (TernaryExpr a condition ifExpr elseExpr) =
     do_all [Print a ''TernaryExpr'' [], IncIndent,
             VisitExpr condition, VisitExpr ifExpr, VisitExpr elseExpr, DecIndent]"
| "VisitExpr (BinaryExpr a lhsExpr op rhsExpr) =
     do_all [Print a ''BinaryExpr'' op, IncIndent, VisitExpr lhsExpr, VisitExpr rhsExpr, DecIndent]"
| "VisitExpr (UnaryExpr a op expr) =
     do_all [Print a ''UnaryExpr'' op, IncIndent, VisitExpr expr, DecIndent]"
| "VisitExpr (PostUnaryExpr a expr op) =
     do_all [Print a ''PostUnaryExpr'' op, IncIndent, VisitExpr expr, DecIndent]"
| "VisitExpr (FunctionCallExpr a call) =
     do_all [Print a ''FunctionCallExpr'' [], IncIndent, VisitFunctionCall call, DecIndent]"
| "VisitExpr (BracketExpr a expr) =
     do_all [Print a ''BracketExpr'' [], IncIndent, VisitExpr expr, DecIndent]"
| "VisitExpr (CastExpr a typeExpr expr) =
     do_all [Print a ''CastExpr'' [], IncIndent, VisitExpr typeExpr, DecIndent]"
| "VisitExpr (VarAccessExpr a varIdent assignOp assignExpr) =
     do_all [Print a ''VarAccessExpr'' [], IncIndent,
             VisitVarIdent varIdent, Visit (map_option VisitExpr assignExpr), DecIndent]"
| "VisitExpr (InitializerExpr a exprs) =
     do_all ([Print a ''InitializerExpr'' [], IncIndent] @ map VisitExpr exprs @ [DecIndent])"
| "VisitVarIdent (VarIdent a ident arrayIndices next) =
     do_all ([Print a ''VarIdent'' ident, IncIndent] @ map VisitExpr arrayIndices
             @ [Visit (map_option VisitVarIdent next), DecIndent])"
| "VisitFunctionCall (FunctionCall a name arguments) =
     do_all ([Print a ''FunctionCall'' [], IncIndent, VisitVarIdent name]
             @ map VisitExpr arguments @ [DecIndent])"

fun VisitPackOffset :: "PackOffset \<Rightarrow> Logger \<Rightarrow> Logger" where
  "VisitPackOffset (PackOffset a registerName vectorComponent) =
     Print a ''PackOffset''
       (registerName @ (if vectorComponent \<noteq> [] then '' ('' @ vectorComponent @ '')'' else []))"

fun VisitVarSemantic :: "VarSemantic \<Rightarrow> Logger \<Rightarrow> Logger" where
  "VisitVarSemantic (VarSemantic a semantic registerName packOffset) =
     do_all [Print a ''VarSemantic''
               (semantic @ (if registerName \<noteq> [] then '' ('' @ registerName @ '')'' else [])),
             IncIndent, Visit (map_option VisitPackOffset packOffset), DecIndent]"

fun VisitVarDecl :: "VarDecl \<Rightarrow> Logger \<Rightarrow> Logger" where
  "VisitVarDecl (VarDecl a name dims sems ini ref) =
     do_all ([Print a ''VarDecl'' name, IncIndent] @ map VisitExpr dims
             @ map VisitVarSemantic sems @ [Visit (map_option VisitExpr ini), DecIndent])"

fun VisitBufferDeclIdent :: "BufferDeclIdent \<Rightarrow> Logger \<Rightarrow> Logger" where
  "VisitBufferDeclIdent (BufferDeclIdent a ident registerName) = Print a ''BufferDeclIdent'' ident"

primrec VisitVarType :: "VarType \<Rightarrow> Logger \<Rightarrow> Logger"
and VisitStructure :: "Structure \<Rightarrow> Logger \<Rightarrow> Logger"
and VisitVarDeclStmnt :: "VarDeclStmnt \<Rightarrow> Logger \<Rightarrow> Logger"
where
  "VisitVarType (VarType a bt st sref) =
     do_all [Print a ''VarType'' bt, IncIndent, Visit (map_option VisitStructure st), DecIndent]"
| "VisitStructure (Structure a name ms) =
     do_all ([Print a ''Structure'' [], IncIndent] @ map VisitVarDeclStmnt ms @ [DecIndent])"
| "VisitVarDeclStmnt (VarDeclStmnt a im tms sms vt ds) =
     do_all ([Print a ''VarDeclStmnt'' [], IncIndent] @ map VisitVarDecl ds @ [DecIndent])"

primrec VisitStmnt :: "Stmnt \<Rightarrow> Logger \<Rightarrow> Logger"
and VisitElseStmnt :: "ElseStmnt \<Rightarrow> Logger \<Rightarrow> Logger"
and VisitCodeBlock :: "CodeBlock \<Rightarrow> Logger \<Rightarrow> Logger"
and VisitSwitchCase :: "SwitchCase \<Rightarrow> Logger \<Rightarrow> Logger"
where
  "VisitStmnt (NullStmnt a) = Print a ''NullStmnt'' []"
| "VisitStmnt (DirectiveStmnt a line) = Print a ''DirectiveStmnt'' line"
| "VisitStmnt (CodeBlockStmnt a codeBlock) =
     do_all [Print a ''CodeBlockStmnt'' [], IncIndent, VisitCodeBlock codeBlock, DecIndent]"
| "VisitStmnt (ForLoopStmnt a attribs initSmnt condition iteration bodyStmnt) =
     do_all [Print a ''ForLoopStmnt'' [], IncIndent, VisitStmnt initSmnt,
             Visit (map_option VisitExpr condition), Visit (map_option VisitExpr iteration),
             VisitStmnt bodyStmnt, DecIndent]"
| "VisitStmnt (WhileLoopStmnt a attribs condition bodyStmnt) =
     do_all [Print a ''WhileLoopStmnt'' [], IncIndent,
             VisitExpr condition, VisitStmnt bodyStmnt, DecIndent]"
| "VisitStmnt (DoWhileLoopStmnt a attribs bodyStmnt condition) =
     do_all [Print a ''DoWhileLoopStmnt'' [], IncIndent,
             VisitStmnt bodyStmnt, VisitExpr condition, DecIndent]"
| "VisitStmnt (IfStmnt a attribs condition bodyStmnt elseStmnt) =
     do_all [Print a ''IfStmnt'' [], IncIndent, VisitExpr condition, VisitStmnt bodyStmnt,
             Visit (map_option VisitElseStmnt elseStmnt), DecIndent]"
| "VisitStmnt (SwitchStmnt a attribs selector cases) =
     do_all ([Print a ''SwitchStmnt'' [], IncIndent, VisitExpr selector]
             @ map VisitSwitchCase cases @ [DecIndent])"
| "VisitStmnt (Stmnt_VarDeclStmnt v) = VisitVarDeclStmnt v"
| "VisitStmnt (AssignStmnt a varIdent op expr) =
     do_all [Print a ''AssignStmnt'' [], IncIndent, VisitExpr expr, DecIndent]"
| "VisitStmnt (ExprStmnt a expr) =
     do_all [Print a ''ExprStmnt'' [], IncIndent, VisitExpr expr, DecIndent]"
| "VisitStmnt (FunctionCallStmnt a call) =
     do_all [Print a ''FunctionCallStmnt'' [], IncIndent, VisitFunctionCall call, DecIndent]"
| "VisitStmnt (ReturnStmnt a expr) =
     do_all [Print a ''ReturnStmnt'' [], IncIndent, Visit (map_option VisitExpr expr), DecIndent]"
| "VisitStmnt (StructDeclStmnt a structure) =
     do_all [Print a ''StructDeclStmnt'' [], IncIndent, VisitStructure structure, DecIndent]"
| "VisitStmnt (CtrlTransferStmnt a instruction) = Print a ''CtrlTransferStmnt'' instruction"
| "VisitElseStmnt (ElseStmnt a bodyStmnt) =
     do_all [Print a ''ElseStmnt'' [], IncIndent, VisitStmnt bodyStmnt, DecIndent]"
| "VisitCodeBlock (CodeBlock a stmnts) =
     do_all ([Print a ''CodeBlock'' [], IncIndent] @ map VisitStmnt stmnts @ [DecIndent])"
| "VisitSwitchCase (SwitchCase a expr stmnts) =
     do_all ([Print a ''SwitchCase'' [], IncIndent] @ map VisitStmnt stmnts @ [DecIndent])"

fun VisitGlobalDecl :: "GlobalDecl \<Rightarrow> Logger \<Rightarrow> Logger" where
  "VisitGlobalDecl (FunctionDecl a attribs returnType name parameters semantic codeBlock) =
     do_all ([Print a ''FunctionDecl'' name, IncIndent] @ map VisitFunctionCall attribs
             @ [Visit (map_option VisitCodeBlock codeBlock), DecIndent])"
| "VisitGlobalDecl (UniformBufferDecl a bufferType name registerName ms) =
     do_all ([Print a ''UniformBufferDecl'' (name @ '' ('' @ bufferType @ '')''), IncIndent]
             @ map VisitVarDeclStmnt ms @ [DecIndent])"
| "VisitGlobalDecl (TextureDecl a textureType colorType names) =
     do_all ([Print a ''TextureDecl'' [], IncIndent] @ map VisitBufferDeclIdent names @ [DecIndent])"
| "VisitGlobalDecl (SamplerDecl a samplerType names) =
     do_all ([Print a ''SamplerDecl'' [], IncIndent] @ map VisitBufferDeclIdent names @ [DecIndent])"
| "VisitGlobalDecl (StructDecl a structure) =
     do_all [Print a ''StructDecl'' [], IncIndent, VisitStructure structure, DecIndent]"
| "VisitGlobalDecl (DirectiveDecl a line) = Print a ''DirectiveDecl'' line"

fun VisitProgram :: "Program \<Rightarrow> Logger \<Rightarrow> Logger" where
  "VisitProgram (Program a globalDecls) =
     do_all ([Print a ''Program'' [], IncIndent] @ map VisitGlobalDecl globalDecls @ [DecIndent])"

definition DumpAST :: "Program \<Rightarrow> Logger \<Rightarrow> Logger" where
  "DumpAST program log = VisitProgram program log"


section \<open>Auxiliary definitions for the statements below\<close>

text \<open>The parser after \<open>k\<close> calls of \<open>AcceptIt\<close>, which never raises.\<close>

fun AcceptIt_times :: "nat \<Rightarrow> HLSLParser \<Rightarrow> HLSLParser" where
  "AcceptIt_times 0 s = s"
| "AcceptIt_times (Suc k) s =
     (case AcceptIt s of Inl e \<Rightarrow> s | Inr (t, s') \<Rightarrow> AcceptIt_times k s')"

text \<open>The kinds of token the loop of \<open>ParseParameter\<close> consumes.\<close>

definition is_modifier :: "Token \<Rightarrow> bool" where
  "is_modifier t = (Type t \<in> {InputModifier, TypeModifier, StorageModifier})"


text \<open>
  Concrete inputs: a token of line 1 at a column, a node header at an address and a
  column of line 1, and the parser as it stands when \<open>i\<close> tokens of a source have been
  accepted and \<open>h\<close> nodes made (for \<open>i = 0\<close>, \<open>h = 0\<close> the state in which \<open>ParseSource\<close>
  calls \<open>ParseProgram\<close>).
\<close>

definition tk :: "Tokens \<Rightarrow> string \<Rightarrow> nat \<Rightarrow> Token" where
  "tk ty sp c = \<lparr>Type = ty, Spell = sp, Pos = \<lparr>row = 1, column = c\<rparr>\<rparr>"

definition node :: "nat \<Rightarrow> nat \<Rightarrow> AST" where
  "node p c = \<lparr>addr = p, pos = \<lparr>row = 1, column = c\<rparr>\<rparr>"

definition parser_at :: "Token list \<Rightarrow> nat \<Rightarrow> nat \<Rightarrow> HLSLParser" where
  "parser_at toks i h =
     (case drop i toks of
        t # ts \<Rightarrow> \<lparr>scanner = \<lparr>pending = ts, scanPos = Pos t\<rparr>, tkn = t, heap = h\<rparr>
      | [] \<Rightarrow>
          (let p = (if toks = [] then \<lparr>row = 1, column = 1\<rparr> else Pos (last toks))
           in \<lparr>scanner = \<lparr>pending = [], scanPos = p\<rparr>,
               tkn = \<lparr>Type = EndOfStream, Spell = [], Pos = p\<rparr>, heap = h\<rparr>))"

definition empty_log :: Logger where
  "empty_log = \<lparr>indent = 0, lines = []\<rparr>"

text \<open>\<^verbatim>\<open>foo(1,2);\<close>\<close>

definition foo_call :: "Token list" where
  "foo_call = [tk Ident ''foo'' 1, tk LBracket ''('' 4, tk IntLiteral ''1'' 5, tk Comma '','' 6,
               tk IntLiteral ''2'' 7, tk RBracket '')'' 8, tk Semicolon '';'' 9]"

text \<open>\<^verbatim>\<open>(float)x\<close>\<close>

definition cast_expr :: "Token list" where
  "cast_expr = [tk LBracket ''('' 1, tk ScalarType ''float'' 2, tk RBracket '')'' 7, tk Ident ''x'' 8]"

text \<open>\<^verbatim>\<open>(half3)float3(1)\<close>, and the same in \<^verbatim>\<open>void f() { return (half3)float3(1); }\<close>\<close>

definition cast_of_call :: "Token list" where
  "cast_of_call = [tk LBracket ''('' 1, tk VectorType ''half3'' 2, tk RBracket '')'' 7,
                   tk VectorType ''float3'' 8, tk LBracket ''('' 14, tk IntLiteral ''1'' 15,
                   tk RBracket '')'' 16]"

definition cast_of_call_program :: "Token list" where
  "cast_of_call_program = [tk Void ''void'' 1, tk Ident ''f'' 6, tk LBracket ''('' 7,
     tk RBracket '')'' 8, tk LCurly ''{'' 10, tk Return ''return'' 12,
     tk LBracket ''('' 19, tk VectorType ''half3'' 20, tk RBracket '')'' 25,
     tk VectorType ''float3'' 26, tk LBracket ''('' 32, tk IntLiteral ''1'' 33,
     tk RBracket '')'' 34, tk Semicolon '';'' 35, tk RCurly ''}'' 37]"

text \<open>\<^verbatim>\<open>(x)\<close> and \<^verbatim>\<open>(x) - 1 * 2\<close>\<close>

definition bracket_x :: "Token list" where
  "bracket_x = [tk LBracket ''('' 1, tk Ident ''x'' 2, tk RBracket '')'' 3]"

definition bracket_minus :: "Token list" where
  "bracket_minus = [tk LBracket ''('' 1, tk Ident ''x'' 2, tk RBracket '')'' 3,
                    tk BinaryOp ''-'' 5, tk IntLiteral ''1'' 7, tk BinaryOp ''*'' 9,
                    tk IntLiteral ''2'' 11]"

text \<open>\<^verbatim>\<open>1 + 2 * 3\<close>\<close>

definition sum_product :: "Token list" where
  "sum_product = [tk IntLiteral ''1'' 1, tk BinaryOp ''+'' 3, tk IntLiteral ''2'' 5,
                  tk BinaryOp ''*'' 7, tk IntLiteral ''3'' 9]"



text \<open>\<^verbatim>\<open>in const out float x)\<close>, a parameter before the end of its list\<close>

definition in_const_out_param :: "Token list" where
  "in_const_out_param =
     [tk InputModifier ''in'' 1, tk TypeModifier ''const'' 4, tk InputModifier ''out'' 10,
      tk ScalarType ''float'' 14, tk Ident ''x'' 20, tk RBracket '')'' 21]"

text \<open>\<^verbatim>\<open>void f(float x);\<close>\<close>

definition prototype_f :: "Token list" where
  "prototype_f = [tk Void ''void'' 1, tk Ident ''f'' 6, tk LBracket ''('' 7,
                  tk ScalarType ''float'' 8, tk Ident ''x'' 14, tk RBracket '')'' 15,
                  tk Semicolon '';'' 16]"

text \<open>\<^verbatim>\<open>void g() { struct S { float a; } v; }\<close>\<close>

definition struct_var_stmnt :: "Token list" where
  "struct_var_stmnt = [tk Void ''void'' 1, tk Ident ''g'' 6, tk LBracket ''('' 7,
                       tk RBracket '')'' 8, tk LCurly ''{'' 10, tk Struct ''struct'' 12,
                       tk Ident ''S'' 19, tk LCurly ''{'' 21, tk ScalarType ''float'' 23,
                       tk Ident ''a'' 29, tk Semicolon '';'' 30, tk RCurly ''}'' 32,
                       tk Ident ''v'' 34, tk Semicolon '';'' 35, tk RCurly ''}'' 37]"

text \<open>\<^verbatim>\<open>cbuffer B { struct S { float a; } v; };\<close>\<close>

definition cbuffer_struct :: "Token list" where
  "cbuffer_struct = [tk UniformBuffer ''cbuffer'' 1, tk Ident ''B'' 9, tk LCurly ''{'' 11,
                     tk Struct ''struct'' 13, tk Ident ''S'' 20, tk LCurly ''{'' 22,
                     tk ScalarType ''float'' 24, tk Ident ''a'' 30, tk Semicolon '';'' 31,
                     tk RCurly ''}'' 33, tk Ident ''v'' 35, tk Semicolon '';'' 36,
                     tk RCurly ''}'' 38, tk Semicolon '';'' 39]"

text \<open>\<^verbatim>\<open>void g() { struct { float a; } v; }\<close>\<close>

definition anonymous_struct :: "Token list" where
  "anonymous_struct = [tk Void ''void'' 1, tk Ident ''g'' 6, tk LBracket ''('' 7,
                       tk RBracket '')'' 8, tk LCurly ''{'' 10, tk Struct ''struct'' 12,
                       tk LCurly ''{'' 19, tk ScalarType ''float'' 21,
                       tk Ident ''a'' 27, tk Semicolon '';'' 28, tk RCurly ''}'' 30,
                       tk Ident ''v'' 32, tk Semicolon '';'' 33, tk RCurly ''}'' 35]"

text \<open>\<^verbatim>\<open>void f() { return (float)y; }\<close> and the tree the parser returns for it\<close>

definition cast_return :: "Token list" where
  "cast_return = [tk Void ''void'' 1, tk Ident ''f'' 6, tk LBracket ''('' 7, tk RBracket '')'' 8,
                  tk LCurly ''{'' 10, tk Return ''return'' 12, tk LBracket ''('' 19,
                  tk ScalarType ''float'' 20, tk RBracket '')'' 25, tk Ident ''y'' 26,
                  tk Semicolon '';'' 27, tk RCurly ''}'' 29]"

definition cast_return_ast :: Program where
  "cast_return_ast =
     Program (node 0 1)
       [FunctionDecl (node 1 1) [] (VarType (node 2 1) ''void'' None None) ''f'' [] []
          (Some (CodeBlock (node 3 10)
             [ReturnStmnt (node 4 12)
                (Some (CastExpr (node 6 26) (TypeNameExpr (node 5 25) ''float'')
                   (VarAccessExpr (node 8 27) (VarIdent (node 7 26) ''y'' [] None) [] None)))]))]"


section \<open>Properties of the parser\<close>

subsection \<open>Reasoning about sequenced steps\<close>

lemma bind_Inr_E:
  assumes "bind m f s = Inr r"
  obtains x s1 where "m s = Inr (x, s1)" and "f x s1 = Inr r"
  using assms by (auto simp: bind_def split: sum.splits)

lemma bind_Inr_I: "m s = Inr (x, s') \<Longrightarrow> bind m f s = f x s'"
  by (simp add: bind_def)

lemma ret_Inr_D: "ret x s = Inr (y, s') \<Longrightarrow> y = x"
  by (simp add: ret_def)


lemma parser_at_start:
  "bind AcceptIt (\<lambda>_. m) (HLSLParser_new \<lparr>pending = toks, scanPos = \<lparr>row = 1, column = 1\<rparr>\<rparr>) =
     m (parser_at toks 0 0)"
  by (cases toks) (simp_all add: bind_def AcceptIt_def Next_def HLSLParser_new_def parser_at_def Let_def)


subsection \<open>Back references of declarations\<close>

text \<open>
  C1: in every tree of a successful parse a \<open>VarDecl\<close> below a \<open>VarDeclStmnt\<close> has
  \<open>declStmntRef\<close> pointing to that statement, parameters and struct-typed variables
  included. The code breaks this. \<open>ParseVarDeclStmnt\<close> and the identifier-led statement
  decorate their declarations; \<open>ParseParameter\<close> does not: for \<^verbatim>\<open>void f(float x);\<close> the
  parameter is the \<open>VarDeclStmnt\<close> at address 3 and its \<open>VarDecl\<close> \<open>x\<close> keeps a null
  \<open>declStmntRef\<close>.
\<close>

theorem ParseParameter_declStmntRef_null:
  "ParseSource 20 None (Some prototype_f) =
     Some (Some (Program (node 0 1)
       [FunctionDecl (node 1 1) [] (VarType (node 2 1) ''void'' None None) ''f''
          [VarDeclStmnt (node 3 8) [] [] [] (VarType (node 4 8) ''float'' None None)
             [VarDecl (node 5 14) ''x'' [] [] None None]]
          [] None]), None)"
  by code_simp

text \<open>
  The same for a variable declared with a struct type in a statement,
  \<^verbatim>\<open>void g() { struct S { float a; } v; }\<close>: \<open>ParseStructDeclOrVarDeclStmnt\<close> builds the
  \<open>VarDeclStmnt\<close> at address 9 and leaves \<open>declStmntRef\<close> of \<open>v\<close> null, and \<open>symbolRef\<close>
  of the type as well; the member \<open>a\<close>, which \<open>ParseVarDeclStmnt\<close> parsed, points to its
  statement at address 6.
\<close>

lemma ParseStructDeclOrVarDeclStmnt_refs_null:
  "ParseSource 20 None (Some struct_var_stmnt) =
     Some (Some (Program (node 0 1)
       [FunctionDecl (node 1 1) [] (VarType (node 2 1) ''void'' None None) ''g'' [] []
          (Some (CodeBlock (node 3 10)
             [Stmnt_VarDeclStmnt
                (VarDeclStmnt (node 9 34) [] [] []
                   (VarType (node 10 34) []
                      (Some (Structure (node 5 12) ''S''
                         [VarDeclStmnt (node 6 23) [] [] []
                            (VarType (node 7 23) ''float'' None None)
                            [VarDecl (node 8 29) ''a'' [] [] None (Some 6)]]))
                      None)
                   [VarDecl (node 11 34) ''v'' [] [] None None])]))]), None)"
  by code_simp

subsection \<open>The symbol reference of a struct type\<close>

text \<open>
  C2: every \<open>VarType\<close> with a \<open>structType\<close> has \<open>symbolRef\<close> equal to the address of that
  structure, whichever production built it. The code breaks this. \<open>ParseVarType\<close> sets
  \<open>symbolRef\<close>; the struct branch of \<open>ParseVarDeclStmnt\<close> does not: the member of
  \<^verbatim>\<open>cbuffer B { struct S { float a; } v; };\<close> has the structure at address 4 as its
  \<open>structType\<close> and a null \<open>symbolRef\<close>.
\<close>

theorem ParseVarDeclStmnt_symbolRef_null:
  "ParseSource 20 None (Some cbuffer_struct) =
     Some (Some (Program (node 0 1)
       [UniformBufferDecl (node 1 1) ''cbuffer'' ''B'' []
          [VarDeclStmnt (node 2 13) [] [] []
             (VarType (node 3 13) []
                (Some (Structure (node 4 13) ''S''
                   [VarDeclStmnt (node 5 24) [] [] []
                      (VarType (node 6 24) ''float'' None None)
                      [VarDecl (node 7 30) ''a'' [] [] None (Some 5)]]))
                None)
             [VarDecl (node 8 35) ''v'' [] [] None (Some 2)]]]), None)"
  by code_simp

text \<open>For comparison, a struct type that \<open>ParseVarType\<close> returns does have it set.\<close>

lemma ParseVarType_symbolRef:
  "ParseVarType n v s = Inr (VarType a bt (Some st) sref, s') \<Longrightarrow>
     sref = Some (addr (Structure_ast st))"
  by (auto simp: ParseVarType_def Error_def ErrorUnexpectedHint_def
           elim!: bind_Inr_E dest!: ret_Inr_D split: if_splits)

subsection \<open>Anonymous structures\<close>

text \<open>
  C3: the parser accepts anonymous structures, and \<^verbatim>\<open>struct { float a; } v;\<close> parses to a
  \<open>VarDeclStmnt\<close> whose structure has the empty name. The code breaks this.
  \<open>ParseStructure\<close> accepts an identifier after \<^verbatim>\<open>struct\<close> unconditionally, so the
  statement (here in the body of \<^verbatim>\<open>void g() { ... }\<close>) is a syntax error at the brace:
  \<open>ParseSource\<close> returns null and logs the error.
\<close>

theorem ParseStructure_rejects_anonymous:
  "ParseSource 20 (Some empty_log) (Some anonymous_struct) =
     Some (None, Some \<lparr>indent = 0, lines =
       [(Failure, 0, ''syntax error (1:19) : unexpected token '' @ [CHR 0x27] @ ''{'' @ [CHR 0x27])]\<rparr>)"
  by code_simp

text \<open>With a name the same statement parses; the tree is in
  \<open>ParseStructDeclOrVarDeclStmnt_refs_null\<close> above.\<close>

subsection \<open>Statements that start with an identifier\<close>

text \<open>
  C4: a statement that begins with an identifier whose parsed \<open>VarIdent\<close> is followed by
  \<^verbatim>\<open>(\<close> becomes a \<open>FunctionCallStmnt\<close> whose \<open>call.name\<close> is that \<open>VarIdent\<close>, never a
  \<open>VarDeclStmnt\<close>: for such input \<open>ParseStmnt\<close> runs the function-call production on the
  parsed identifier, and whenever it returns, this is the statement it returns.
\<close>

lemma ParseStmnt_ident_call_production:
  assumes "Is Ident s" and "ParseVarIdent n s = Inr (v, s1)" and "Is LBracket s1"
  shows "ParseStmnt (Suc n) s =
           bind Make (\<lambda>a. bind (ParseFunctionCall n (Some v)) (\<lambda>call. bind Semi (\<lambda>_.
             ret (FunctionCallStmnt a call)))) s1"
proof -
  from assms(1) have "\<not> Is LParen s" "\<not> Is Semicolon s" "\<not> Is Directive s"
    "\<not> Is LCurly s" "\<not> Is Return s"
    by (auto simp: Is_def)
  with assms(1) have "ParseStmnt (Suc n) s = ParseVarDeclOrAssignOrFunctionCallStmnt n s"
    by (simp add: bind_def ret_def)
  with assms(2,3) show ?thesis
    by (simp add: ParseVarDeclOrAssignOrFunctionCallStmnt_def bind_def)
qed

theorem ParseStmnt_ident_call:
  assumes "Is Ident s" and "ParseVarIdent n s = Inr (v, s1)" and "Is LBracket s1"
  shows "ParseStmnt (Suc n) s =
           bind Make (\<lambda>a. bind (ParseFunctionCall n (Some v)) (\<lambda>call. bind Semi (\<lambda>_.
             ret (FunctionCallStmnt a call)))) s1 \<and>
         (\<forall>st s'. ParseStmnt (Suc n) s = Inr (st, s') \<longrightarrow>
            (\<exists>a b args. st = FunctionCallStmnt a (FunctionCall b v args)) \<and>
            (\<forall>d. st \<noteq> Stmnt_VarDeclStmnt d))"
proof -
  note p = ParseStmnt_ident_call_production [OF assms]
  from assms(2) obtain m where n: "n = Suc m" by (cases n) auto
  have "(\<exists>a b args. st = FunctionCallStmnt a (FunctionCall b v args)) \<and>
        (\<forall>d. st \<noteq> Stmnt_VarDeclStmnt d)"
    if r: "ParseStmnt (Suc n) s = Inr (st, s')" for st s'
  proof -
    from r p have "bind Make (\<lambda>a. bind (ParseFunctionCall n (Some v)) (\<lambda>call. bind Semi (\<lambda>_.
             ret (FunctionCallStmnt a call)))) s1 = Inr (st, s')"
      by simp
    then obtain a s2 where "bind (ParseFunctionCall n (Some v)) (\<lambda>call. bind Semi (\<lambda>_.
             ret (FunctionCallStmnt a call))) s2 = Inr (st, s')"
      by (rule bind_Inr_E)
    then obtain call s3 where call: "ParseFunctionCall n (Some v) s2 = Inr (call, s3)"
      and "bind Semi (\<lambda>_. ret (FunctionCallStmnt a call)) s3 = Inr (st, s')"
      by (rule bind_Inr_E)
    then have st: "st = FunctionCallStmnt a call"
      by (auto elim!: bind_Inr_E dest!: ret_Inr_D)
    from call n obtain b args where "call = FunctionCall b v args"
      by (auto elim!: bind_Inr_E dest!: ret_Inr_D)
    with st show ?thesis by simp
  qed
  with p show ?thesis by blast
qed

theorem ParseStmnt_ident_call_witness:
  "Is Ident (parser_at foo_call 0 0) \<and>
   ParseVarIdent 19 (parser_at foo_call 0 0) =
     Inr (VarIdent (node 0 1) ''foo'' [] None, parser_at foo_call 1 1) \<and>
   Is LBracket (parser_at foo_call 1 1) \<and>
   ParseStmnt (Suc 19) (parser_at foo_call 0 0) =
     Inr (FunctionCallStmnt (node 1 4)
            (FunctionCall (node 2 4) (VarIdent (node 0 1) ''foo'' [] None)
               [LiteralExpr (node 3 5) ''1'', LiteralExpr (node 4 7) ''2'']),
          parser_at foo_call 7 5) \<and>
   (\<exists>a b args. FunctionCallStmnt (node 1 4)
            (FunctionCall (node 2 4) (VarIdent (node 0 1) ''foo'' [] None)
               [LiteralExpr (node 3 5) ''1'', LiteralExpr (node 4 7) ''2'']) =
        FunctionCallStmnt a (FunctionCall b (VarIdent (node 0 1) ''foo'' [] None) args))"
proof -
  have h1: "Is Ident (parser_at foo_call 0 0)"
    by code_simp
  have h2: "ParseVarIdent 19 (parser_at foo_call 0 0) =
     Inr (VarIdent (node 0 1) ''foo'' [] None, parser_at foo_call 1 1)"
    by code_simp
  have h3: "Is LBracket (parser_at foo_call 1 1)"
    by code_simp
  have h4: "ParseStmnt (Suc 19) (parser_at foo_call 0 0) =
     Inr (FunctionCallStmnt (node 1 4)
            (FunctionCall (node 2 4) (VarIdent (node 0 1) ''foo'' [] None)
               [LiteralExpr (node 3 5) ''1'', LiteralExpr (node 4 7) ''2'']),
          parser_at foo_call 7 5)"
    by code_simp
  from ParseStmnt_ident_call [OF h1 h2 h3, THEN conjunct2, rule_format, OF h4, THEN conjunct1]
    h1 h2 h3 h4
  show ?thesis
    by (intro conjI) (simp_all only: simp_thms)
qed

subsection \<open>Cast or bracket expression\<close>

text \<open>
  What the code does: after \<open>ParseBracketOrCastExpr\<close> has consumed \<^verbatim>\<open>(E)\<close>, it continues
  as the cast production and builds a \<open>CastExpr\<close> with \<open>typeExpr = E\<close> if and only if its
  test \<open>IsPrimaryExpr\<close> holds at the current token (a literal, an identifier, a unary
  operator, the binary operator \<^verbatim>\<open>-\<close> or \<^verbatim>\<open>(\<close>) and \<open>E\<close> is a \<open>TypeNameExpr\<close> or a
  \<open>VarAccessExpr\<close> whose \<open>assignExpr\<close> is null; in every other case it builds a
  \<open>BracketExpr\<close> around \<open>E\<close>.
\<close>

lemma ParseBracketOrCastExpr_steps:
  assumes "Accept LBracket s = Inr (t1, s1)" and "ParseExpr n True None s1 = Inr (E, s2)"
      and "Accept RBracket s2 = Inr (t2, s3)"
  shows "ParseBracketOrCastExpr (Suc n) s =
           (if IsPrimaryExpr s3 \<and>
               ((\<exists>a ty. E = TypeNameExpr a ty) \<or> (\<exists>a v op. E = VarAccessExpr a v op None))
            then bind Make (\<lambda>a. bind (ParsePrimaryExpr n) (\<lambda>e. ret (CastExpr a E e))) s3
            else bind Make (\<lambda>a. ret (BracketExpr a E)) s3)"
proof -
  have "(case E of TypeNameExpr _ _ \<Rightarrow> True
                 | VarAccessExpr _ _ _ assignExpr \<Rightarrow> assignExpr = None
                 | _ \<Rightarrow> False) \<longleftrightarrow>
        ((\<exists>a ty. E = TypeNameExpr a ty) \<or> (\<exists>a v op. E = VarAccessExpr a v op None))"
    by (cases E) simp_all
  with assms show ?thesis
    by (simp only: ParseBracketOrCastExpr.simps bind_def sum.case prod.case)
qed

lemma ParseBracketOrCastExpr_cast_iff:
  assumes "Accept LBracket s = Inr (t1, s1)" and "ParseExpr n True None s1 = Inr (E, s2)"
      and "Accept RBracket s2 = Inr (t2, s3)"
  shows "ParseBracketOrCastExpr (Suc n) s =
           (if IsPrimaryExpr s3 \<and>
               ((\<exists>a ty. E = TypeNameExpr a ty) \<or> (\<exists>a v op. E = VarAccessExpr a v op None))
            then bind Make (\<lambda>a. bind (ParsePrimaryExpr n) (\<lambda>e. ret (CastExpr a E e))) s3
            else bind Make (\<lambda>a. ret (BracketExpr a E)) s3) \<and>
         (\<forall>r s'. ParseBracketOrCastExpr (Suc n) s = Inr (r, s') \<longrightarrow>
            ((\<exists>a e. r = CastExpr a E e) \<longleftrightarrow>
               (IsPrimaryExpr s3 \<and>
                ((\<exists>a ty. E = TypeNameExpr a ty) \<or> (\<exists>a v op. E = VarAccessExpr a v op None)))) \<and>
            ((\<exists>a. r = BracketExpr a E) \<longleftrightarrow>
               \<not> (IsPrimaryExpr s3 \<and>
                ((\<exists>a ty. E = TypeNameExpr a ty) \<or> (\<exists>a v op. E = VarAccessExpr a v op None)))))"
proof -
  let ?c = "IsPrimaryExpr s3 \<and>
       ((\<exists>a ty. E = TypeNameExpr a ty) \<or> (\<exists>a v op. E = VarAccessExpr a v op None))"
  note k = ParseBracketOrCastExpr_steps [OF assms]
  have "((\<exists>a e. r = CastExpr a E e) \<longleftrightarrow> ?c) \<and> ((\<exists>a. r = BracketExpr a E) \<longleftrightarrow> \<not> ?c)"
    if ret: "ParseBracketOrCastExpr (Suc n) s = Inr (r, s')" for r s'
  proof (cases ?c)
    case True
    with k ret have "bind Make (\<lambda>a. bind (ParsePrimaryExpr n) (\<lambda>e. ret (CastExpr a E e))) s3 = Inr (r, s')"
      by (simp only: if_True simp_thms)
    then obtain a s4 where "bind (ParsePrimaryExpr n) (\<lambda>e. ret (CastExpr a E e)) s4 = Inr (r, s')"
      by (rule bind_Inr_E)
    then obtain e s5 where "ret (CastExpr a E e) s5 = Inr (r, s')"
      by (rule bind_Inr_E)
    then have r: "r = CastExpr a E e" by (simp add: ret_def)
    then have "\<exists>a e. r = CastExpr a E e" by (intro exI)
    moreover from r have "\<not> (\<exists>a. r = BracketExpr a E)" by simp
    ultimately show ?thesis using True by (simp only: simp_thms)
  next
    case False
    with k ret have "bind Make (\<lambda>a. ret (BracketExpr a E)) s3 = Inr (r, s')"
      by (simp only: if_False simp_thms)
    then obtain a s4 where "ret (BracketExpr a E) s4 = Inr (r, s')"
      by (rule bind_Inr_E)
    then have r: "r = BracketExpr a E" by (simp add: ret_def)
    then have "\<exists>a. r = BracketExpr a E" by (intro exI)
    moreover from r have "\<not> (\<exists>a e. r = CastExpr a E e)" by simp
    ultimately show ?thesis using False by (simp only: simp_thms)
  qed
  then have "\<forall>r s'. ParseBracketOrCastExpr (Suc n) s = Inr (r, s') \<longrightarrow>
            ((\<exists>a e. r = CastExpr a E e) \<longleftrightarrow> ?c) \<and> ((\<exists>a. r = BracketExpr a E) \<longleftrightarrow> \<not> ?c)"
    by (intro allI impI)
  with k show ?thesis by (intro conjI)
qed

lemma ParseBracketOrCastExpr_cast_iff_example:
  "Accept LBracket (parser_at cast_expr 0 0) = Inr (tk LBracket ''('' 1, parser_at cast_expr 1 0) \<and>
   ParseExpr 19 True None (parser_at cast_expr 1 0) =
     Inr (TypeNameExpr (node 0 7) ''float'', parser_at cast_expr 2 1) \<and>
   Accept RBracket (parser_at cast_expr 2 1) = Inr (tk RBracket '')'' 7, parser_at cast_expr 3 1) \<and>
   ParseBracketOrCastExpr (Suc 19) (parser_at cast_expr 0 0) =
     Inr (CastExpr (node 1 8) (TypeNameExpr (node 0 7) ''float'')
            (VarAccessExpr (node 3 8) (VarIdent (node 2 8) ''x'' [] None) [] None),
          parser_at cast_expr 4 4) \<and>
   IsPrimaryExpr (parser_at cast_expr 3 1) \<and>
   (\<exists>a e. CastExpr (node 1 8) (TypeNameExpr (node 0 7) ''float'')
            (VarAccessExpr (node 3 8) (VarIdent (node 2 8) ''x'' [] None) [] None) =
          CastExpr a (TypeNameExpr (node 0 7) ''float'') e)"
proof -
  let ?E = "TypeNameExpr (node 0 7) ''float''"
  let ?r = "CastExpr (node 1 8) ?E
            (VarAccessExpr (node 3 8) (VarIdent (node 2 8) ''x'' [] None) [] None)"
  have 1: "Accept LBracket (parser_at cast_expr 0 0) =
             Inr (tk LBracket ''('' 1, parser_at cast_expr 1 0)"
    by code_simp
  have 2: "ParseExpr 19 True None (parser_at cast_expr 1 0) = Inr (?E, parser_at cast_expr 2 1)"
    by code_simp
  have 3: "Accept RBracket (parser_at cast_expr 2 1) =
             Inr (tk RBracket '')'' 7, parser_at cast_expr 3 1)"
    by code_simp
  have h: "ParseBracketOrCastExpr (Suc 19) (parser_at cast_expr 0 0) =
             Inr (?r, parser_at cast_expr 4 4)"
    by code_simp
  have p: "IsPrimaryExpr (parser_at cast_expr 3 1)"
    by code_simp
  have c: "IsPrimaryExpr (parser_at cast_expr 3 1) \<and>
           ((\<exists>a ty. ?E = TypeNameExpr a ty) \<or> (\<exists>a v op. ?E = VarAccessExpr a v op None))"
    using p by simp
  from ParseBracketOrCastExpr_cast_iff [OF 1 2 3, THEN conjunct2, rule_format, OF h, THEN conjunct1] c
  have ce: "\<exists>a e. ?r = CastExpr a ?E e"
    by (simp only: simp_thms)
  from 1 2 3 h p ce show ?thesis by (intro conjI)
qed

text \<open>
  C5: the parser builds the \<open>CastExpr\<close> if and only if a primary expression can start
  at the current token and \<open>E\<close> is a type name or an identifier path. The code breaks
  this. \<open>ParsePrimaryExpr\<close> starts a primary expression at a data-type token (and at
  \<^verbatim>\<open>{\<close>); \<open>IsPrimaryExpr\<close> lists neither. In \<^verbatim>\<open>(half3)float3(1)\<close> the token after the
  bracket is \<^verbatim>\<open>float3\<close>, where \<open>ParsePrimaryExpr\<close> parses the call \<^verbatim>\<open>float3(1)\<close>, and \<open>E\<close>
  is the \<open>TypeNameExpr\<close> of \<^verbatim>\<open>half3\<close>; yet the parser returns a \<open>BracketExpr\<close> and leaves
  \<^verbatim>\<open>float3\<close> unread, so that \<^verbatim>\<open>void f() { return (half3)float3(1); }\<close> is a syntax error.
\<close>

theorem ParseBracketOrCastExpr_bracket_before_data_type:
  "ParseBracketOrCastExpr 20 (parser_at cast_of_call 0 0) =
     Inr (BracketExpr (node 1 8) (TypeNameExpr (node 0 7) ''half3''), parser_at cast_of_call 3 2) \<and>
   ParsePrimaryExpr 20 (parser_at cast_of_call 3 2) =
     Inr (FunctionCallExpr (node 3 14)
            (FunctionCall (node 4 14) (VarIdent (node 2 14) ''float3'' [] None)
               [LiteralExpr (node 5 15) ''1'']),
          parser_at cast_of_call 7 6) \<and>
   ParseSource 20 (Some empty_log) (Some cast_of_call_program) =
     Some (None, Some \<lparr>indent = 0, lines =
       [(Failure, 0,
         ''syntax error (1:26) : unexpected token '' @ [CHR 0x27] @ ''float3'' @ [CHR 0x27])]\<rparr>)"
  by code_simp

subsection \<open>Binary operators\<close>

lemma ParseExpr_primary_only:
  assumes "ParsePrimaryExpr n s = Inr (c, s5)"
      and "\<not> Is UnaryOp s5" and "\<not> Is BinaryOp s5" and "\<not> Is TernaryOp s5"
      and "\<not> (allowComma \<and> Is Comma s5)"
  shows "ParseExpr (Suc n) allowComma None s = Inr (c, s5)"
  using assms by (auto simp add: bind_def ret_def)

lemma ParseExpr_binary:
  assumes "ParsePrimaryExpr n s = Inr (a, s1)"
      and "Is BinaryOp s1"
      and "bind Make (\<lambda>h. bind AcceptIt (\<lambda>t. ret (h, Spell t))) s1 = Inr ((h, op), s2)"
      and "ParseExpr n allowComma None s2 = Inr (rhs, s3)"
  shows "ParseExpr (Suc n) allowComma None s = Inr (BinaryExpr h a op rhs, s3)"
proof -
  from assms(2) have u: "\<not> Is UnaryOp s1" by (simp add: Is_def)
  from assms(3) obtain t s1' where m: "Make s1 = Inr (h, s1')" and t: "AcceptIt s1' = Inr (t, s2)"
    and op: "op = Spell t"
    by (auto simp: bind_def ret_def split: sum.splits)
  show ?thesis
    using assms(1,2,4) u m t op by (simp add: bind_def ret_def)
qed

text \<open>
  C7 as stated speaks of every sequence \<^verbatim>\<open>a op1 b op2 c\<close> of primary expressions and
  binary operators. It fails where a primary expression together with the operator
  after it is read differently: \<^verbatim>\<open>(x)\<close> alone is a primary expression (a \<open>BracketExpr\<close>), \<^verbatim>\<open>-\<close> and \<^verbatim>\<open>*\<close>
  are binary operators, but \<^verbatim>\<open>(x) - 1 * 2\<close> is parsed as the cast of \<^verbatim>\<open>-1\<close> to \<open>x\<close>, times
  \<open>2\<close>, and not as \<open>BinaryExpr{-, (x), BinaryExpr{*, 1, 2}}\<close>.
\<close>

theorem ParseExpr_bracket_minus:
  "ParsePrimaryExpr 20 (parser_at bracket_x 0 0) =
     Inr (BracketExpr (node 2 3)
            (VarAccessExpr (node 1 3) (VarIdent (node 0 2) ''x'' [] None) [] None),
          parser_at bracket_x 3 3) \<and>
   ParseExpr 20 False None (parser_at bracket_minus 0 0) =
     Inr (BinaryExpr (node 5 9)
            (CastExpr (node 2 5)
               (VarAccessExpr (node 1 3) (VarIdent (node 0 2) ''x'' [] None) [] None)
               (UnaryExpr (node 3 5) ''-'' (LiteralExpr (node 4 7) ''1'')))
            ''*'' (LiteralExpr (node 6 11) ''2''),
          parser_at bracket_minus 7 7)"
  by code_simp

text \<open>
  C7 (amended): binary operators parse right-associatively and without precedence. For
  an input \<^verbatim>\<open>a op1 b op2 c\<close> in which \<open>ParsePrimaryExpr\<close> reads \<open>a\<close> and stops at a binary
  operator, reads \<open>b\<close> after it and stops at a binary operator again, and reads \<open>c\<close>
  after that, stopping at a token that does not continue an expression, \<open>ParseExpr\<close>
  returns \<open>BinaryExpr{op1, a, BinaryExpr{op2, b, c}}\<close>, whatever the two operators are.
\<close>

theorem ParseExpr_right_assoc:
  assumes "ParsePrimaryExpr (Suc (Suc n)) s0 = Inr (a, s1)"
      and "Is BinaryOp s1"
      and "bind Make (\<lambda>h. bind AcceptIt (\<lambda>t. ret (h, Spell t))) s1 = Inr ((h1, op1), s2)"
      and "ParsePrimaryExpr (Suc n) s2 = Inr (b, s3)"
      and "Is BinaryOp s3"
      and "bind Make (\<lambda>h. bind AcceptIt (\<lambda>t. ret (h, Spell t))) s3 = Inr ((h2, op2), s4)"
      and "ParsePrimaryExpr n s4 = Inr (c, s5)"
      and "\<not> Is UnaryOp s5" and "\<not> Is BinaryOp s5" and "\<not> Is TernaryOp s5"
      and "\<not> (allowComma \<and> Is Comma s5)"
  shows "ParseExpr (Suc (Suc (Suc n))) allowComma None s0 =
           Inr (BinaryExpr h1 a op1 (BinaryExpr h2 b op2 c), s5)"
proof -
  have c: "ParseExpr (Suc n) allowComma None s4 = Inr (c, s5)"
    using assms(7-11) by (rule ParseExpr_primary_only)
  have bc: "ParseExpr (Suc (Suc n)) allowComma None s2 = Inr (BinaryExpr h2 b op2 c, s5)"
    using assms(4,5,6) c by (rule ParseExpr_binary)
  show ?thesis
    using assms(1,2,3) bc by (rule ParseExpr_binary)
qed

theorem ParseExpr_right_assoc_witness:
  "ParseExpr (Suc (Suc (Suc 1))) False None (parser_at sum_product 0 0) =
     Inr (BinaryExpr (node 1 3) (LiteralExpr (node 0 1) ''1'') ''+''
            (BinaryExpr (node 3 7) (LiteralExpr (node 2 5) ''2'') ''*''
               (LiteralExpr (node 4 9) ''3'')),
          parser_at sum_product 5 5)"
proof -
  have 1: "ParsePrimaryExpr (Suc (Suc 1)) (parser_at sum_product 0 0) =
             Inr (LiteralExpr (node 0 1) ''1'', parser_at sum_product 1 1)"
    by code_simp
  have 2: "Is BinaryOp (parser_at sum_product 1 1)"
    by code_simp
  have 3: "bind Make (\<lambda>h. bind AcceptIt (\<lambda>t. ret (h, Spell t))) (parser_at sum_product 1 1) =
             Inr ((node 1 3, ''+''), parser_at sum_product 2 2)"
    by code_simp
  have 4: "ParsePrimaryExpr (Suc 1) (parser_at sum_product 2 2) =
             Inr (LiteralExpr (node 2 5) ''2'', parser_at sum_product 3 3)"
    by code_simp
  have 5: "Is BinaryOp (parser_at sum_product 3 3)"
    by code_simp
  have 6: "bind Make (\<lambda>h. bind AcceptIt (\<lambda>t. ret (h, Spell t))) (parser_at sum_product 3 3) =
             Inr ((node 3 7, ''*''), parser_at sum_product 4 4)"
    by code_simp
  have 7: "ParsePrimaryExpr 1 (parser_at sum_product 4 4) =
             Inr (LiteralExpr (node 4 9) ''3'', parser_at sum_product 5 5)"
    by code_simp
  have 8: "\<not> Is UnaryOp (parser_at sum_product 5 5)"
    by code_simp
  have 9: "\<not> Is BinaryOp (parser_at sum_product 5 5)"
    by code_simp
  have 10: "\<not> Is TernaryOp (parser_at sum_product 5 5)"
    by code_simp
  have 11: "\<not> (False \<and> Is Comma (parser_at sum_product 5 5))"
    by simp
  show ?thesis
    by (rule ParseExpr_right_assoc [OF 1 2 3 4 5 6 7 8 9 10 11])
qed

subsection \<open>Input modifiers of a parameter\<close>

text \<open>
  The loop of \<open>ParseParameter\<close> consumes exactly the modifiers that lead the parameter,
  whatever their kinds and their order, and stops at the first token that is none. Of the
  input modifiers among them it keeps the last.
\<close>

lemma AcceptIt_modifiers:
  assumes "AcceptIt s = Inr (t, s1)"
  shows "t = tkn s"
    and "takeWhile is_modifier (tkn s1 # pending (scanner s1)) =
         takeWhile is_modifier (pending (scanner s))"
  using assms by (auto simp: AcceptIt_def Next_def is_modifier_def split: list.splits)

lemma ParseParameter_loop_result:
  "ParseParameter_loop im tms sms s =
     (let ms = takeWhile is_modifier (tkn s # pending (scanner s));
          ims = filter (\<lambda>t. Type t = InputModifier) ms
      in Inr ((if ims = [] then im else Spell (last ims),
               tms @ map Spell (filter (\<lambda>t. Type t = TypeModifier) ms),
               sms @ map Spell (filter (\<lambda>t. Type t = StorageModifier) ms)),
              AcceptIt_times (length ms) s))"
proof (induction im tms sms s rule: ParseParameter_loop.induct)
  case (1 im tms sms s)
  show ?case
  proof (cases "Is InputModifier s \<or> Is TypeModifier s \<or> Is StorageModifier s")
    case False
    then have "\<not> is_modifier (tkn s)" by (auto simp: Is_def is_modifier_def)
    then have "takeWhile is_modifier (tkn s # pending (scanner s)) = []" by simp
    moreover from False have "ParseParameter_loop im tms sms s = Inr ((im, tms, sms), s)"
      by (subst ParseParameter_loop.simps) (simp add: ret_def)
    ultimately show ?thesis by simp
  next
    case True
    then have P: "is_modifier (tkn s)" by (auto simp: Is_def is_modifier_def)
    obtain t s1 where acc: "AcceptIt s = Inr (t, s1)"
      by (cases "Next (scanner s)") (simp add: AcceptIt_def)
    note m = AcceptIt_modifiers [OF acc]
    from P have tw: "takeWhile is_modifier (tkn s # pending (scanner s)) =
                 tkn s # takeWhile is_modifier (tkn s1 # pending (scanner s1))"
      unfolding m(2) by simp
    have st: "AcceptIt_times (Suc k) s = AcceptIt_times k s1" for k
      using acc by simp
    show ?thesis
    proof (cases "Is InputModifier s")
      case i: True
      from True i acc have "ParseParameter_loop im tms sms s =
           ParseParameter_loop (Spell t) tms sms s1"
        by (subst ParseParameter_loop.simps) simp
      moreover from i have "Type (tkn s) = InputModifier" by (simp add: Is_def)
      ultimately show ?thesis
        unfolding tw "1.IH"(1) [OF True i acc refl] using m(1) st
        by (simp add: Let_def)
    next
      case i: False
      then have ni: "Type (tkn s) \<noteq> InputModifier" by (simp add: Is_def)
      show ?thesis
      proof (cases "Is TypeModifier s")
        case ty: True
        from True i ty acc have "ParseParameter_loop im tms sms s =
             ParseParameter_loop im (tms @ [Spell t]) sms s1"
          by (subst ParseParameter_loop.simps) simp
        moreover from ty have "Type (tkn s) = TypeModifier" by (simp add: Is_def)
        ultimately show ?thesis
          unfolding tw "1.IH"(2) [OF True i ty acc refl] using m(1) st ni
          by (simp add: Let_def)
      next
        case ty: False
        from True i ty have sm: "Type (tkn s) = StorageModifier" by (simp add: Is_def)
        from True i ty acc have "ParseParameter_loop im tms sms s =
             ParseParameter_loop im tms (sms @ [Spell t]) s1"
          by (subst ParseParameter_loop.simps) simp
        then show ?thesis
          unfolding tw "1.IH"(3) [OF True i ty acc refl] using m(1) st ni sm
          by (simp add: Let_def)
      qed
    qed
  qed
qed

lemma AcceptIt_times_stops:
  "\<not> is_modifier (tkn (AcceptIt_times
       (length (takeWhile is_modifier (tkn s # pending (scanner s)))) s))"
proof (induction "pending (scanner s)" arbitrary: s)
  case Nil
  then show ?case
    by (cases "is_modifier (tkn s)")
       (auto simp: AcceptIt_def Next_def is_modifier_def)
next
  case (Cons a x)
  show ?case
  proof (cases "is_modifier (tkn s)")
    case False
    then show ?thesis by simp
  next
    case True
    obtain t s1 where acc: "AcceptIt s = Inr (t, s1)"
      by (cases "Next (scanner s)") (simp add: AcceptIt_def)
    with Cons(2) have "x = pending (scanner s1)" "tkn s1 = a"
      by (auto simp: AcceptIt_def Next_def split: list.splits)
    with Cons(1) [of s1] Cons(2) [symmetric] True acc show ?thesis by simp
  qed
qed

text \<open>
  C8: a parameter may carry several input modifiers. From every state the loop over the
  modifiers returns, having accepted all the modifiers that lead the parameter, and it
  stops at a token that is no modifier. \<open>ParseParameter\<close> is then the type and the
  declarator parsed from that token on: it raises only what these two raise, and when
  they return it returns the \<open>VarDeclStmnt\<close> whose \<open>inputModifier\<close> is the spelling of the
  last input modifier among the leading modifiers (the empty string if there is none),
  with the type modifiers and the storage modifiers in source order.
\<close>

theorem ParseParameter_inputModifier:
  "(let ms = takeWhile is_modifier (tkn s # pending (scanner s));
        ims = filter (\<lambda>t. Type t = InputModifier) ms;
        im = (if ims = [] then [] else Spell (last ims));
        tms = map Spell (filter (\<lambda>t. Type t = TypeModifier) ms);
        sms = map Spell (filter (\<lambda>t. Type t = StorageModifier) ms)
    in ParseParameter_loop [] [] [] s = Inr ((im, tms, sms), AcceptIt_times (length ms) s) \<and>
       \<not> is_modifier (tkn (AcceptIt_times (length ms) s)) \<and>
       ParseParameter n s =
         bind Make (\<lambda>a s0.
           bind (ParseVarType n False) (\<lambda>vt. bind (ParseVarDecl n) (\<lambda>d.
             ret (VarDeclStmnt a im tms sms vt [d])))
           (AcceptIt_times (length ms) s0)) s \<and>
       (\<forall>vt s1 d s'.
          ParseVarType n False (AcceptIt_times (length ms) (s\<lparr>heap := Suc (heap s)\<rparr>)) =
            Inr (vt, s1) \<and>
          ParseVarDecl n s1 = Inr (d, s') \<longrightarrow>
          ParseParameter n s =
            Inr (VarDeclStmnt \<lparr>addr = heap s, pos = scanPos (scanner s)\<rparr> im tms sms vt [d],
                 s')) \<and>
       (\<forall>p s'. ParseParameter n s = Inr (p, s') \<longrightarrow> inputModifier p = im))"
proof -
  define s0 where "s0 = s\<lparr>heap := Suc (heap s)\<rparr>"
  have mk: "Make s = Inr (\<lparr>addr = heap s, pos = scanPos (scanner s)\<rparr>, s0)"
    by (simp add: Make_def s0_def)
  have same: "tkn s0 = tkn s" "scanner s0 = scanner s"
    by (simp_all add: s0_def)
  have eq: "ParseParameter n s =
         bind Make (\<lambda>a s0.
           bind (ParseVarType n False) (\<lambda>vt. bind (ParseVarDecl n) (\<lambda>d.
             ret (VarDeclStmnt a im tms sms vt [d])))
           (AcceptIt_times (length ms) s0)) s"
    if "ms = takeWhile is_modifier (tkn s # pending (scanner s))"
      and "ims = filter (\<lambda>t. Type t = InputModifier) ms"
      and "im = (if ims = [] then [] else Spell (last ims))"
      and "tms = map Spell (filter (\<lambda>t. Type t = TypeModifier) ms)"
      and "sms = map Spell (filter (\<lambda>t. Type t = StorageModifier) ms)"
    for ms ims im tms sms
  proof -
    from ParseParameter_loop_result [of "[]" "[]" "[]" s0]
    have "ParseParameter_loop [] [] [] s0 = Inr ((im, tms, sms), AcceptIt_times (length ms) s0)"
      unfolding Let_def same that by simp
    then have "bind (ParseParameter_loop [] [] []) f s0 =
        f (im, tms, sms) (AcceptIt_times (length ms) s0)" for f :: "_ \<Rightarrow> VarDeclStmnt P"
      by (rule bind_Inr_I)
    moreover have "bind Make g s = g \<lparr>addr = heap s, pos = scanPos (scanner s)\<rparr> s0"
      for g :: "_ \<Rightarrow> VarDeclStmnt P"
      using mk by (rule bind_Inr_I)
    ultimately show ?thesis
      unfolding ParseParameter_def by (simp only: prod.case)
  qed
  have sel: "inputModifier p = im"
    if "bind Make (\<lambda>a s0.
           bind (ParseVarType n False) (\<lambda>vt. bind (ParseVarDecl n) (\<lambda>d.
             ret (VarDeclStmnt a im tms sms vt [d])))
           (f s0)) s = Inr (p, s')" for p s' im tms sms f
    using that by (auto elim!: bind_Inr_E dest!: ret_Inr_D)
  let ?ms = "takeWhile is_modifier (tkn s # pending (scanner s))"
  let ?ims = "filter (\<lambda>t. Type t = InputModifier) ?ms"
  let ?im = "if ?ims = [] then [] else Spell (last ?ims)"
  let ?tms = "map Spell (filter (\<lambda>t. Type t = TypeModifier) ?ms)"
  let ?sms = "map Spell (filter (\<lambda>t. Type t = StorageModifier) ?ms)"
  from ParseParameter_loop_result [of "[]" "[]" "[]" s]
  have 1: "ParseParameter_loop [] [] [] s =
             Inr ((?im, ?tms, ?sms), AcceptIt_times (length ?ms) s)"
    by (simp only: Let_def append_Nil)
  have 2: "\<not> is_modifier (tkn (AcceptIt_times (length ?ms) s))"
    by (rule AcceptIt_times_stops)
  have 3: "ParseParameter n s =
         bind Make (\<lambda>a s0.
           bind (ParseVarType n False) (\<lambda>vt. bind (ParseVarDecl n) (\<lambda>d.
             ret (VarDeclStmnt a ?im ?tms ?sms vt [d])))
           (AcceptIt_times (length ?ms) s0)) s"
    by (rule eq [OF refl refl refl refl refl])
  have 4: "\<forall>p s'. ParseParameter n s = Inr (p, s') \<longrightarrow> inputModifier p = ?im"
    unfolding 3 by (intro allI impI) (rule sel)
  have 5: "\<forall>vt s1 d s'.
          ParseVarType n False (AcceptIt_times (length ?ms) (s\<lparr>heap := Suc (heap s)\<rparr>)) =
            Inr (vt, s1) \<and>
          ParseVarDecl n s1 = Inr (d, s') \<longrightarrow>
          ParseParameter n s =
            Inr (VarDeclStmnt \<lparr>addr = heap s, pos = scanPos (scanner s)\<rparr> ?im ?tms ?sms vt [d],
                 s')"
  proof (intro allI impI, elim conjE)
    fix vt s1 d s'
    assume vt: "ParseVarType n False (AcceptIt_times (length ?ms) (s\<lparr>heap := Suc (heap s)\<rparr>)) =
            Inr (vt, s1)"
      and d: "ParseVarDecl n s1 = Inr (d, s')"
    have "bind Make g s = g \<lparr>addr = heap s, pos = scanPos (scanner s)\<rparr> s0"
      for g :: "_ \<Rightarrow> VarDeclStmnt P"
      using mk by (rule bind_Inr_I)
    then show "ParseParameter n s =
            Inr (VarDeclStmnt \<lparr>addr = heap s, pos = scanPos (scanner s)\<rparr> ?im ?tms ?sms vt [d],
                 s')"
      unfolding 3 using vt d
      by (simp only: s0_def [symmetric] bind_Inr_I [of "ParseVarType n False"]
            bind_Inr_I [of "ParseVarDecl n"] ret_def)
  qed
  from 1 2 3 5 4 show ?thesis
    unfolding Let_def by (intro conjI)
qed

theorem ParseParameter_inputModifier_witness:
  "ParseParameter 20 (parser_at in_const_out_param 0 0) =
     Inr (VarDeclStmnt (node 0 1) ''out'' [''const''] []
            (VarType (node 1 14) ''float'' None None)
            [VarDecl (node 2 20) ''x'' [] [] None None],
          parser_at in_const_out_param 5 3) \<and>
   ParseParameter_loop [] [] [] (parser_at in_const_out_param 0 0) =
     Inr ((''out'', [''const''], []), parser_at in_const_out_param 3 0) \<and>
   (let ims = filter (\<lambda>t. Type t = InputModifier)
                (takeWhile is_modifier
                   (tkn (parser_at in_const_out_param 0 0)
                    # pending (scanner (parser_at in_const_out_param 0 0))))
    in if ims = [] then [] else Spell (last ims)) = ''out''"
proof -
  let ?s = "parser_at in_const_out_param 0 0"
  let ?ms = "takeWhile is_modifier (tkn ?s # pending (scanner ?s))"
  let ?ims = "filter (\<lambda>t. Type t = InputModifier) ?ms"
  let ?im = "if ?ims = [] then [] else Spell (last ?ims)"
  have hd: "\<lparr>addr = heap ?s, pos = scanPos (scanner ?s)\<rparr> = node 0 1"
    by code_simp
  have im: "?im = ''out''"
    by code_simp
  have tms: "map Spell (filter (\<lambda>t. Type t = TypeModifier) ?ms) = [''const'']"
    by code_simp
  have sms: "map Spell (filter (\<lambda>t. Type t = StorageModifier) ?ms) = []"
    by code_simp
  have st: "AcceptIt_times (length ?ms) ?s = parser_at in_const_out_param 3 0"
    by code_simp
  have vt: "ParseVarType 20 False (AcceptIt_times (length ?ms) (?s\<lparr>heap := Suc (heap ?s)\<rparr>)) =
              Inr (VarType (node 1 14) ''float'' None None, parser_at in_const_out_param 4 2)"
    by code_simp
  have d: "ParseVarDecl 20 (parser_at in_const_out_param 4 2) =
              Inr (VarDecl (node 2 20) ''x'' [] [] None None, parser_at in_const_out_param 5 3)"
    by code_simp
  note t = ParseParameter_inputModifier [of ?s 20, unfolded Let_def]
  from t vt d have "ParseParameter 20 ?s =
     Inr (VarDeclStmnt \<lparr>addr = heap ?s, pos = scanPos (scanner ?s)\<rparr> ?im
            (map Spell (filter (\<lambda>t. Type t = TypeModifier) ?ms))
            (map Spell (filter (\<lambda>t. Type t = StorageModifier) ?ms))
            (VarType (node 1 14) ''float'' None None)
            [VarDecl (node 2 20) ''x'' [] [] None None],
          parser_at in_const_out_param 5 3)"
    by blast
  then have h: "ParseParameter 20 ?s =
     Inr (VarDeclStmnt (node 0 1) ''out'' [''const''] []
            (VarType (node 1 14) ''float'' None None)
            [VarDecl (node 2 20) ''x'' [] [] None None],
          parser_at in_const_out_param 5 3)"
    by (simp only: hd im tms sms)
  from t have "ParseParameter_loop [] [] [] ?s =
     Inr ((?im, map Spell (filter (\<lambda>t. Type t = TypeModifier) ?ms),
           map Spell (filter (\<lambda>t. Type t = StorageModifier) ?ms)),
          AcceptIt_times (length ?ms) ?s)"
    by (rule conjunct1)
  then have "ParseParameter_loop [] [] [] ?s =
     Inr ((''out'', [''const''], []), parser_at in_const_out_param 3 0)"
    by (simp only: im tms sms st)
  moreover from t h have "inputModifier (VarDeclStmnt (node 0 1) ''out'' [''const''] []
            (VarType (node 1 14) ''float'' None None)
            [VarDecl (node 2 20) ''x'' [] [] None None]) = ?im"
    by blast
  then have "?im = ''out''"
    by (simp only: VarDeclStmnt.sel)
  ultimately show ?thesis
    using h unfolding Let_def by (intro conjI)
qed

subsection \<open>Failures of \<open>ParseSource\<close>\<close>

text \<open>
  C6: \<open>ParseSource\<close> returns null on every failure. When the scanner refuses the source
  it returns null; when a production raises an error it returns null and the message
  goes to the attached logger through \<open>Error\<close>; and a program it does return is the one
  \<open>ParseProgram\<close> returned, never a part of it.
\<close>

theorem ParseSource_failure:
  "(ScanSource source = None \<longrightarrow> ParseSource n log source = Some (None, log)) \<and>
   (\<forall>sc what. ScanSource source = Some sc \<and>
       bind AcceptIt (\<lambda>_. ParseProgram n) (HLSLParser_new sc) = Inl (runtime_error what) \<longrightarrow>
       ParseSource n log source = Some (None, map_option (Logger_Error what) log)) \<and>
   (\<forall>program log'. ParseSource n log source = Some (Some program, log') \<longrightarrow>
       (\<exists>sc s'. ScanSource source = Some sc \<and>
          bind AcceptIt (\<lambda>_. ParseProgram n) (HLSLParser_new sc) = Inr (program, s')))"
  by (auto simp: ParseSource_def split: option.splits sum.splits error.splits)

theorem ParseSource_failure_witness:
  "ParseSource 20 (Some empty_log) None = Some (None, Some empty_log) \<and>
   ParseSource 20 (Some empty_log) (Some anonymous_struct) =
     Some (None, Some (Logger_Error
       (''syntax error (1:19) : unexpected token '' @ [CHR 0x27] @ ''{'' @ [CHR 0x27]) empty_log)) \<and>
   (\<exists>sc s'. ScanSource (Some cast_return) = Some sc \<and>
      bind AcceptIt (\<lambda>_. ParseProgram 20) (HLSLParser_new sc) = Inr (cast_return_ast, s'))"
proof -
  let ?sc = "\<lambda>toks. \<lparr>pending = toks, scanPos = \<lparr>row = 1, column = 1\<rparr>\<rparr>"
  let ?msg = "''syntax error (1:19) : unexpected token '' @ [CHR 0x27] @ ''{'' @ [CHR 0x27]"
  have a: "ScanSource None = None"
    by (simp add: ScanSource_def)
  have b: "ScanSource (Some anonymous_struct) = Some (?sc anonymous_struct) \<and>
           bind AcceptIt (\<lambda>_. ParseProgram 20) (HLSLParser_new (?sc anonymous_struct)) =
             Inl (runtime_error ?msg)"
    by code_simp
  have c: "ParseSource 20 (Some empty_log) (Some cast_return) =
             Some (Some cast_return_ast, Some empty_log)"
    by code_simp
  from ParseSource_failure [of None 20 "Some empty_log"] a
  have 1: "ParseSource 20 (Some empty_log) None = Some (None, Some empty_log)"
    by (simp only: simp_thms)
  from ParseSource_failure [of "Some anonymous_struct" 20 "Some empty_log"] b
  have 2: "ParseSource 20 (Some empty_log) (Some anonymous_struct) =
             Some (None, Some (Logger_Error ?msg empty_log))"
    by (simp only: option.map) blast
  from ParseSource_failure [of "Some cast_return" 20 "Some empty_log"] c
  have 3: "\<exists>sc s'. ScanSource (Some cast_return) = Some sc \<and>
      bind AcceptIt (\<lambda>_. ParseProgram 20) (HLSLParser_new sc) = Inr (cast_return_ast, s')"
    by blast
  from 1 2 3 show ?thesis by (intro conjI)
qed

subsection \<open>Attributes before a statement\<close>






















section \<open>The printer on a cast\<close>

text \<open>
  C9: for every node reachable from the root the printer emits exactly one line, a child
  one level deeper than its parent. The code breaks this. \<open>VisitCastExpr\<close> visits
  \<open>typeExpr\<close> and not \<open>expr\<close> (\<open>VisitUnaryExpr\<close> and \<open>VisitBracketExpr\<close> visit their
  operand), and \<open>VisitFunctionDecl\<close> visits neither the return type nor the parameters:
  for the tree of \<^verbatim>\<open>void f() { return (float)y; }\<close>, which has nine nodes, the log has
  six lines, none for the \<open>VarType\<close> of the function nor for the \<open>VarAccessExpr\<close> and the
  \<open>VarIdent\<close> of \<open>y\<close>.
\<close>

theorem DumpAST_skips_cast_operand:
  "ParseSource 20 None (Some cast_return) = Some (Some cast_return_ast, None) \<and>
   lines (DumpAST cast_return_ast empty_log) =
     [(Info, 0, ''Program (1:1)''),
      (Info, 1, ''FunctionDecl (1:1) '' @ [CHR 0x22] @ ''f'' @ [CHR 0x22]),
      (Info, 2, ''CodeBlock (1:10)''),
      (Info, 3, ''ReturnStmnt (1:12)''),
      (Info, 4, ''CastExpr (1:26)''),
      (Info, 5, ''TypeNameExpr (1:25) '' @ [CHR 0x22] @ ''float'' @ [CHR 0x22])]"
  by code_simp

end
